theory Spec2Isabelle
  imports Complex_Main "HOL-Library.Sublist" "HOL-Library.AList"
begin

section \<open>Run engine: data model\<close>

text \<open>
  The models of \<^verbatim>\<open>talkingdb/models/document/elements/base/base.py\<close>. Python strings are
  \<open>string\<close>: a character is a code point below 256. Python's float (the font size) is
  the type parameter \<open>'f\<close>, and the operations of the language on it that the code uses
  (truthiness, \<^verbatim>\<open>str\<close>, \<^verbatim>\<open>float\<close>) are parameters of the functions that need them. The
  field \<^verbatim>\<open>attributes\<close> of a run is declared a \<^verbatim>\<open>RunAttributes\<close>, but \<^verbatim>\<open>from_dict\<close> passes
  a \<^verbatim>\<open>None\<close> of its input through, and the code reads the field with a guard in some
  places, so it is optional here. \<^verbatim>\<open>deepcopy\<close> is the identity on values.
\<close>

datatype error = IndexError | ValueError | AttributeError | TypeError

record 'f RunAttributes =
  bold :: "bool option"
  italic :: "bool option"
  underline :: "bool option"
  font_size :: "'f option"
  font_name :: "string option"
  font_color :: "string option"
  subscript :: "bool option"
  superscript :: "bool option"
  case_attr :: "string option"
  styles :: "string list option"
  comment_ids :: "string list option"
  comment_text :: "string option"
  tracked_change :: "string option"

record 'f RunModel =
  run_text :: string
  attributes :: "'f RunAttributes option"
  run_type :: string
  run_id :: "string option"

text \<open>\<^verbatim>\<open>RunAttributes()\<close>: every field \<^verbatim>\<open>None\<close>.\<close>

definition empty_attributes :: "'f RunAttributes" where
  "empty_attributes =
     \<lparr>bold = None, italic = None, underline = None, font_size = None, font_name = None,
      font_color = None, subscript = None, superscript = None, case_attr = None,
      styles = None, comment_ids = None, comment_text = None, tracked_change = None\<rparr>"

text \<open>
  \<^verbatim>\<open>RunModel(text=t, attributes=a)\<close>: the type and the id take their defaults.
  \<^verbatim>\<open>self.attributes or RunAttributes()\<close> reads the attributes with their default.
\<close>

definition mk_run :: "string \<Rightarrow> 'f RunAttributes option \<Rightarrow> 'f RunModel" where
  "mk_run t a = \<lparr>run_text = t, attributes = a, run_type = ''Run'', run_id = None\<rparr>"

definition attrs_or_default :: "'f RunModel \<Rightarrow> 'f RunAttributes" where
  "attrs_or_default run = (case attributes run of None \<Rightarrow> empty_attributes | Some a \<Rightarrow> a)"

text \<open>Python's \<^verbatim>\<open>xs[i:j]\<close> for \<open>0 \<le> i\<close> and \<open>0 \<le> j\<close>.\<close>

definition slice :: "'a list \<Rightarrow> nat \<Rightarrow> nat \<Rightarrow> 'a list" where
  "slice xs i j = take (j - i) (drop i xs)"

section \<open>Slicing and splitting a run\<close>

definition slice_run :: "'f RunModel \<Rightarrow> int \<Rightarrow> int \<Rightarrow> 'f RunModel option" where
  "slice_run run start stop =
     (if start < 0 \<or> stop > int (length (run_text run)) \<or> start \<ge> stop then None
      else Some (mk_run (slice (run_text run) (nat start) (nat stop)) (attributes run)))"

definition split_run ::
  "'f RunModel \<Rightarrow> int \<Rightarrow> int \<Rightarrow> 'f RunModel option \<times> 'f RunModel option \<times> 'f RunModel option"
where
  "split_run run start stop =
     (let before = slice_run run 0 start;
          middle = slice_run run start stop;
          after = slice_run run stop (int (length (run_text run)))
      in (before, middle, after))"


section \<open>Searching a run window\<close>

text \<open>
  Python's \<^verbatim>\<open>s.find(t)\<close>: the lowest index at which \<open>t\<close> occurs in \<open>s\<close>, or \<open>-1\<close>.
\<close>

fun str_find :: "string \<Rightarrow> string \<Rightarrow> int" where
  "str_find [] t = (if t = [] then 0 else -1)"
| "str_find (c # s) t =
     (if prefix t (c # s) then 0
      else (let k = str_find s t in if k = -1 then -1 else k + 1))"

record window =
  start_run :: nat
  end_run :: nat
  char_start :: int
  char_end :: int
  merged_text :: string

text \<open>
  The inner loop of \<^verbatim>\<open>find_run_window\<close>, over the start indices that are left, and the
  outer loop, over the widths that are left.
\<close>

fun scan_starts :: "string list \<Rightarrow> string \<Rightarrow> nat \<Rightarrow> nat list \<Rightarrow> window option" where
  "scan_starts texts t w [] = None"
| "scan_starts texts t w (i # is) =
     (let merged = concat (slice texts i (i + w));
          idx = str_find merged t
      in if idx \<noteq> -1
         then Some \<lparr>start_run = i, end_run = i + w, char_start = idx,
                      char_end = idx + int (length t), merged_text = merged\<rparr>
         else scan_starts texts t w is)"

fun scan_widths :: "string list \<Rightarrow> string \<Rightarrow> nat \<Rightarrow> nat list \<Rightarrow> window option" where
  "scan_widths texts t n [] = None"
| "scan_widths texts t n (w # ws) =
     (case scan_starts texts t w [0..<n - w + 1] of
        Some win \<Rightarrow> Some win
      | None \<Rightarrow> scan_widths texts t n ws)"

definition find_run_window :: "'f RunModel list \<Rightarrow> string \<Rightarrow> window option" where
  "find_run_window runs t =
     (let texts = map run_text runs; n = length runs
      in scan_widths texts t n [1..<n + 1])"

text \<open>The runs \<open>i, \<dots>, i + w - 1\<close> of the texts, joined, contain \<open>t\<close>.\<close>

definition hit :: "string list \<Rightarrow> string \<Rightarrow> nat \<Rightarrow> nat \<Rightarrow> bool" where
  "hit texts t i w = sublist t (concat (slice texts i (i + w)))"

section \<open>Dropping and replacing text\<close>

text \<open>
  The loop of \<^verbatim>\<open>drop_text\<close> over the runs of the window: \<open>offset\<close> is the number of
  characters of the window before the run, \<open>out\<close> the output list so far.
\<close>

fun drop_parts ::
  "'f RunModel list \<Rightarrow> int \<Rightarrow> int \<Rightarrow> int \<Rightarrow> 'f RunModel list \<Rightarrow> 'f RunModel list"
where
  "drop_parts [] cs ce offset out = out"
| "drop_parts (r # rs) cs ce offset out =
     (let r_len = int (length (run_text r));
          r_start = max 0 (cs - offset);
          r_end = min r_len (ce - offset);
          (before, middle, after) = split_run r r_start r_end;
          out1 = (case before of Some b \<Rightarrow> out @ [b] | None \<Rightarrow> out);
          out2 = (case after of Some a \<Rightarrow> out1 @ [a] | None \<Rightarrow> out1)
      in drop_parts rs cs ce (offset + r_len) out2)"

definition drop_text :: "'f RunModel list \<Rightarrow> string \<Rightarrow> 'f RunModel list" where
  "drop_text rs t =
     (case find_run_window rs t of
        None \<Rightarrow> rs
      | Some win \<Rightarrow>
          (let sr = start_run win; er = end_run win;
               cs = char_start win; ce = char_end win;
               merged = slice rs sr er;
               out = take sr rs;
               out1 = drop_parts merged cs ce 0 out
           in out1 @ drop er rs))"

text \<open>
  The first loop of \<^verbatim>\<open>replace_text\<close>: the three lists \<^verbatim>\<open>before_parts\<close>,
  \<^verbatim>\<open>del_parts\<close> and \<^verbatim>\<open>after_parts\<close> are the accumulator. The assignment
  \<^verbatim>\<open>middle.attributes.tracked_change = "del"\<close> raises \<^verbatim>\<open>AttributeError\<close> when the
  attributes of the run are \<^verbatim>\<open>None\<close>.
\<close>

definition set_tracked_change :: "string \<Rightarrow> 'f RunModel \<Rightarrow> error + 'f RunModel" where
  "set_tracked_change mark r =
     (case attributes r of
        None \<Rightarrow> Inl AttributeError
      | Some a \<Rightarrow> Inr (r\<lparr>attributes := Some (a\<lparr>tracked_change := Some mark\<rparr>)\<rparr>))"

definition mark_del :: "'f RunModel \<Rightarrow> error + 'f RunModel" where
  "mark_del m = set_tracked_change ''del'' m"

fun replace_parts ::
  "'f RunModel list \<Rightarrow> int \<Rightarrow> int \<Rightarrow> int \<Rightarrow>
   'f RunModel list \<times> 'f RunModel list \<times> 'f RunModel list \<Rightarrow>
   error + 'f RunModel list \<times> 'f RunModel list \<times> 'f RunModel list"
where
  "replace_parts [] cs ce offset acc = Inr acc"
| "replace_parts (r # rs) cs ce offset (before_parts, del_parts, after_parts) =
     (let r_len = int (length (run_text r));
          r_start = max 0 (cs - offset);
          r_end = min r_len (ce - offset);
          (before, middle, after) = split_run r r_start r_end;
          before_parts1 = (case before of Some b \<Rightarrow> before_parts @ [b] | None \<Rightarrow> before_parts)
      in (case (case middle of
                  Some m \<Rightarrow> (case mark_del m of Inl e \<Rightarrow> Inl e | Inr m1 \<Rightarrow> Inr (del_parts @ [m1]))
                | None \<Rightarrow> Inr del_parts) of
            Inl e \<Rightarrow> Inl e
          | Inr del_parts1 \<Rightarrow>
              (let after_parts1 =
                     (case after of Some a \<Rightarrow> after_parts @ [a] | None \<Rightarrow> after_parts)
               in replace_parts rs cs ce (offset + r_len)
                    (before_parts1, del_parts1, after_parts1))))"

text \<open>
  The second loop of \<^verbatim>\<open>replace_text\<close>, over the inserted runs, with the flag
  \<^verbatim>\<open>first_ins\<close>. A comment text is truthy when it is a non-empty string.
\<close>

definition str_truthy :: "string option \<Rightarrow> bool" where
  "str_truthy c = (case c of None \<Rightarrow> False | Some x \<Rightarrow> x \<noteq> [])"

definition mark_ins :: "'f RunModel \<Rightarrow> error + 'f RunModel" where
  "mark_ins r = set_tracked_change ''ins'' r"

definition set_comment_text :: "string option \<Rightarrow> 'f RunModel \<Rightarrow> 'f RunModel" where
  "set_comment_text comment r =
     r\<lparr>attributes := map_option (\<lambda>a. a\<lparr>comment_text := comment\<rparr>) (attributes r)\<rparr>"

fun mark_inserted ::
  "'f RunModel list \<Rightarrow> string option \<Rightarrow> bool \<Rightarrow> error + 'f RunModel list"
where
  "mark_inserted [] comment first_ins = Inr []"
| "mark_inserted (r # rs) comment first_ins =
     (case mark_ins r of
        Inl e \<Rightarrow> Inl e
      | Inr r1 \<Rightarrow>
          if first_ins \<and> str_truthy comment
          then (case mark_inserted rs comment False of
                  Inl e \<Rightarrow> Inl e
                | Inr rs1 \<Rightarrow> Inr (set_comment_text comment r1 # rs1))
          else (case mark_inserted rs comment first_ins of
                  Inl e \<Rightarrow> Inl e
                | Inr rs1 \<Rightarrow> Inr (r1 # rs1)))"

section \<open>Strings of the standard library\<close>

text \<open>
  The methods of Python's \<^verbatim>\<open>str\<close> that the code calls, on strings of code points below
  256: \<^verbatim>\<open>strip()\<close>, \<^verbatim>\<open>strip(chars)\<close>, \<^verbatim>\<open>split(sep)\<close>, \<^verbatim>\<open>split(sep, 1)\<close>, \<^verbatim>\<open>split()\<close>,
  \<^verbatim>\<open>sep.join(xs)\<close>, \<^verbatim>\<open>lower()\<close>, \<^verbatim>\<open>replace(c, "")\<close> and \<^verbatim>\<open>html.escape\<close>. White space is
  what \<^verbatim>\<open>str.isspace\<close> and the pattern \<^verbatim>\<open>\s\<close> accept: the code points 9 to 13, 28 to 32,
  133 and 160. \<^verbatim>\<open>str.upper\<close> has results beyond code point 255 and results of two
  characters; it is a parameter of the functions that call it.
\<close>

definition is_space :: "char \<Rightarrow> bool" where
  "is_space c =
     (let n = of_char c :: nat
      in (9 \<le> n \<and> n \<le> 13) \<or> (28 \<le> n \<and> n \<le> 32) \<or> n = 133 \<or> n = 160)"

definition strip_chars :: "(char \<Rightarrow> bool) \<Rightarrow> string \<Rightarrow> string" where
  "strip_chars P s = rev (dropWhile P (rev (dropWhile P s)))"

definition strip :: "string \<Rightarrow> string" where
  "strip s = strip_chars is_space s"

fun split_on :: "char \<Rightarrow> string \<Rightarrow> string list" where
  "split_on sep [] = [[]]"
| "split_on sep (c # s) =
     (if c = sep then [] # split_on sep s
      else (case split_on sep s of
              [] \<Rightarrow> [[c]]
            | x # xs \<Rightarrow> (c # x) # xs))"

definition split_first :: "char \<Rightarrow> string \<Rightarrow> string \<times> string" where
  "split_first sep s = (takeWhile (\<lambda>c. c \<noteq> sep) s, drop 1 (dropWhile (\<lambda>c. c \<noteq> sep) s))"

fun split_ws :: "string \<Rightarrow> string list" where
  "split_ws [] = []"
| "split_ws (c # s) =
     (if is_space c then split_ws s
      else (case s of
              [] \<Rightarrow> [[c]]
            | d # _ \<Rightarrow>
                if is_space d then [c] # split_ws s
                else (case split_ws s of
                        [] \<Rightarrow> [[c]]
                      | x # xs \<Rightarrow> (c # x) # xs)))"

fun join :: "string \<Rightarrow> string list \<Rightarrow> string" where
  "join sep [] = []"
| "join sep [x] = x"
| "join sep (x # y # ys) = x @ sep @ join sep (y # ys)"

definition lower_char :: "char \<Rightarrow> char" where
  "lower_char c =
     (let n = of_char c :: nat
      in if (65 \<le> n \<and> n \<le> 90) \<or> (192 \<le> n \<and> n \<le> 222 \<and> n \<noteq> 215) then char_of (n + 32)
         else c)"

definition lower :: "string \<Rightarrow> string" where
  "lower s = map lower_char s"

definition escape_char :: "char \<Rightarrow> string" where
  "escape_char c =
     (if c = CHR ''&'' then ''&amp;''
      else if c = CHR ''<'' then ''&lt;''
      else if c = CHR ''>'' then ''&gt;''
      else if c = CHR 0x22 then ''&quot;''
      else if c = CHR 0x27 then ''&#x27;''
      else [c])"

definition escape :: "string \<Rightarrow> string" where
  "escape s = concat (map escape_char s)"

section \<open>Rendering a run as HTML\<close>

text \<open>
  Truthiness of the optional fields: a flag is truthy when it is \<^verbatim>\<open>True\<close>, a string or a
  list when it is present and not empty. The truthiness of a float and its \<^verbatim>\<open>str\<close> are
  the parameters \<open>float_truthy\<close> and \<open>float_str\<close>.
\<close>

definition flag :: "bool option \<Rightarrow> bool" where
  "flag b = (b = Some True)"

definition list_truthy :: "'a list option \<Rightarrow> bool" where
  "list_truthy xs = (case xs of None \<Rightarrow> False | Some ys \<Rightarrow> ys \<noteq> [])"

definition case_map :: "string \<rightharpoonup> string" where
  "case_map = map_of [(''upper'', ''uppercase''), (''capitalize'', ''capitalize''),
                      (''sentence'', ''none'')]"

definition css_styles :: "('f \<Rightarrow> bool) \<Rightarrow> ('f \<Rightarrow> string) \<Rightarrow> 'f RunAttributes \<Rightarrow> string list" where
  "css_styles float_truthy float_str attrs =
     (case font_size attrs of
        Some f \<Rightarrow> if float_truthy f then [''font-size: '' @ float_str f @ ''pt''] else []
      | None \<Rightarrow> [])
     @ (if str_truthy (font_name attrs)
        then [''font-family: '' @ [CHR 0x27] @ the (font_name attrs) @ [CHR 0x27]] else [])
     @ (if str_truthy (font_color attrs) then [''color: #'' @ the (font_color attrs)] else [])
     @ (if flag (underline attrs) then [''text-decoration: underline''] else [])
     @ (if str_truthy (case_attr attrs)
        then (case case_map (the (case_attr attrs)) of
                Some v \<Rightarrow> [''text-transform: '' @ v]
              | None \<Rightarrow> [])
        else [])"

definition style_attr :: "('f \<Rightarrow> bool) \<Rightarrow> ('f \<Rightarrow> string) \<Rightarrow> 'f RunAttributes \<Rightarrow> string" where
  "style_attr float_truthy float_str attrs =
     (let styles = css_styles float_truthy float_str attrs
      in if styles \<noteq> [] then '' style='' @ [CHR 0x22] @ join ''; '' styles @ [CHR 0x22] else [])"

definition html_attrs :: "'f RunAttributes \<Rightarrow> string list" where
  "html_attrs attrs =
     (if list_truthy (styles attrs)
      then [''class='' @ [CHR 0x22] @ join '' '' (the (styles attrs)) @ [CHR 0x22]] else [])
     @ (if list_truthy (comment_ids attrs)
        then [''data-comments='' @ [CHR 0x22] @ join '' '' (the (comment_ids attrs)) @ [CHR 0x22]]
        else [])
     @ (if str_truthy (tracked_change attrs)
        then [''data-track='' @ [CHR 0x22] @ the (tracked_change attrs) @ [CHR 0x22]] else [])"

definition attr_str :: "'f RunAttributes \<Rightarrow> string" where
  "attr_str attrs =
     (let hs = html_attrs attrs in if hs \<noteq> [] then '' '' @ join '' '' hs else [])"

definition to_html :: "('f \<Rightarrow> bool) \<Rightarrow> ('f \<Rightarrow> string) \<Rightarrow> 'f RunModel \<Rightarrow> string" where
  "to_html float_truthy float_str run =
     (if run_text run = [] then []
      else
        (let wrapped = escape (run_text run);
             attrs = attrs_or_default run;
             wrapped1 = (if flag (bold attrs) then ''<strong>'' @ wrapped @ ''</strong>'' else wrapped);
             wrapped2 = (if flag (italic attrs) then ''<em>'' @ wrapped1 @ ''</em>'' else wrapped1);
             wrapped3 = (if flag (subscript attrs) then ''<sub>'' @ wrapped2 @ ''</sub>'' else wrapped2);
             wrapped4 = (if flag (superscript attrs) then ''<sup>'' @ wrapped3 @ ''</sup>'' else wrapped3)
         in ''<span'' @ style_attr float_truthy float_str attrs @ attr_str attrs @ ''>''
            @ wrapped4 @ ''</span>''))"

section \<open>Parsing HTML into runs\<close>

text \<open>
  \<^verbatim>\<open>_RunHTMLParser\<close> extends the standard library's \<^verbatim>\<open>HTMLParser\<close>. The tokenizer of the
  library is the parameter \<open>feed\<close>: the calls of \<^verbatim>\<open>handle_starttag\<close>, \<^verbatim>\<open>handle_endtag\<close> and
  \<^verbatim>\<open>handle_data\<close> that \<^verbatim>\<open>parser.feed(html_text)\<close> makes, in order. The value of an
  attribute without one is \<^verbatim>\<open>None\<close>. Python's \<^verbatim>\<open>float(s)\<close> is the parameter
  \<open>float_parse\<close>, with \<open>None\<close> where it raises \<^verbatim>\<open>ValueError\<close>. The stack keeps its top at
  the end of the list, as the code does.
\<close>

datatype html_event =
  StartTag string "(string \<times> string option) list"
| EndTag string
| Data string

record 'f parser_state =
  p_runs :: "'f RunModel list"
  p_stack :: "'f RunAttributes list"

definition reverse_case :: "string \<rightharpoonup> string" where
  "reverse_case = map_of [(''uppercase'', ''upper''), (''capitalize'', ''capitalize'')]"

definition is_quote :: "char \<Rightarrow> bool" where
  "is_quote c = (c = CHR 0x27 \<or> c = CHR 0x22)"

fun parse_style ::
  "(string \<Rightarrow> 'f option) \<Rightarrow> string list \<Rightarrow> 'f RunAttributes \<Rightarrow> error + 'f RunAttributes"
where
  "parse_style float_parse [] attrs = Inr attrs"
| "parse_style float_parse (rule # rules) attrs =
     (if CHR '':'' \<notin> set rule then parse_style float_parse rules attrs
      else
        (let (k, v) = split_first CHR '':'' rule;
             key = strip k;
             val = strip v
         in if key = ''font-size'' \<and> suffix ''pt'' val
            then (case float_parse (take (length val - 2) val) of
                    None \<Rightarrow> Inl ValueError
                  | Some f \<Rightarrow> parse_style float_parse rules (attrs\<lparr>font_size := Some f\<rparr>))
            else if key = ''font-family''
            then parse_style float_parse rules (attrs\<lparr>font_name := Some (strip_chars is_quote val)\<rparr>)
            else if key = ''color'' \<and> prefix ''#'' val
            then parse_style float_parse rules (attrs\<lparr>font_color := Some (drop 1 val)\<rparr>)
            else if key = ''text-decoration'' \<and> sublist ''underline'' val
            then parse_style float_parse rules (attrs\<lparr>underline := Some True\<rparr>)
            else if key = ''text-transform''
            then parse_style float_parse rules (attrs\<lparr>case_attr := reverse_case val\<rparr>)
            else parse_style float_parse rules attrs))"

definition span_attrs ::
  "(string \<Rightarrow> 'f option) \<Rightarrow> (string \<times> string option) list \<Rightarrow> 'f RunAttributes \<Rightarrow>
   error + 'f RunAttributes"
where
  "span_attrs float_parse attrs current =
     (let attr_map = map_of (rev attrs) in
      (case (case attr_map ''class'' of
               None \<Rightarrow> Inr current
             | Some None \<Rightarrow> Inl AttributeError
             | Some (Some cls) \<Rightarrow> Inr (current\<lparr>styles := Some (split_ws cls)\<rparr>)) of
         Inl e \<Rightarrow> Inl e
       | Inr current1 \<Rightarrow>
           (case attr_map ''style'' of
              None \<Rightarrow> Inr current1
            | Some None \<Rightarrow> Inl AttributeError
            | Some (Some st) \<Rightarrow> parse_style float_parse (split_on CHR '';'' st) current1)))"

definition handle_starttag ::
  "(string \<Rightarrow> 'f option) \<Rightarrow> string \<Rightarrow> (string \<times> string option) list \<Rightarrow>
   'f parser_state \<Rightarrow> error + 'f parser_state"
where
  "handle_starttag float_parse tag attrs st =
     (if p_stack st = [] then Inl IndexError
      else
        (let parent = last (p_stack st);
             current = parent
         in (case (if tag = ''strong'' then Inr (current\<lparr>bold := Some True\<rparr>)
                   else if tag = ''em'' then Inr (current\<lparr>italic := Some True\<rparr>)
                   else if tag = ''sub'' then Inr (current\<lparr>subscript := Some True\<rparr>)
                   else if tag = ''sup'' then Inr (current\<lparr>superscript := Some True\<rparr>)
                   else if tag = ''span'' then span_attrs float_parse attrs current
                   else Inr current) of
               Inl e \<Rightarrow> Inl e
             | Inr current1 \<Rightarrow> Inr (st\<lparr>p_stack := p_stack st @ [current1]\<rparr>))))"

definition handle_endtag :: "string \<Rightarrow> 'f parser_state \<Rightarrow> 'f parser_state" where
  "handle_endtag tag st =
     (if length (p_stack st) > 1 then st\<lparr>p_stack := butlast (p_stack st)\<rparr> else st)"

definition handle_data :: "string \<Rightarrow> 'f parser_state \<Rightarrow> error + 'f parser_state" where
  "handle_data d st =
     (if d = [] then Inr st
      else if p_stack st = [] then Inl IndexError
      else Inr (st\<lparr>p_runs := p_runs st @ [mk_run d (Some (last (p_stack st)))]\<rparr>))"

fun handle_events ::
  "(string \<Rightarrow> 'f option) \<Rightarrow> html_event list \<Rightarrow> 'f parser_state \<Rightarrow> error + 'f parser_state"
where
  "handle_events float_parse [] st = Inr st"
| "handle_events float_parse (ev # evs) st =
     (case (case ev of
              StartTag tag attrs \<Rightarrow> handle_starttag float_parse tag attrs st
            | EndTag tag \<Rightarrow> Inr (handle_endtag tag st)
            | Data d \<Rightarrow> handle_data d st) of
        Inl e \<Rightarrow> Inl e
      | Inr st1 \<Rightarrow> handle_events float_parse evs st1)"

definition from_html ::
  "(string \<Rightarrow> html_event list) \<Rightarrow> (string \<Rightarrow> 'f option) \<Rightarrow> string \<Rightarrow> error + 'f RunModel list"
where
  "from_html feed float_parse html_text =
     (case handle_events float_parse (feed html_text)
             \<lparr>p_runs = [], p_stack = [empty_attributes]\<rparr> of
        Inl e \<Rightarrow> Inl e
      | Inr st \<Rightarrow> Inr (p_runs st))"

definition replace_text ::
  "(string \<Rightarrow> html_event list) \<Rightarrow> (string \<Rightarrow> 'f option) \<Rightarrow>
   'f RunModel list \<Rightarrow> string \<Rightarrow> string \<Rightarrow> string option \<Rightarrow> error + 'f RunModel list"
where
  "replace_text feed float_parse rs t html comment =
     (case find_run_window rs t of
        None \<Rightarrow> Inr rs
      | Some win \<Rightarrow>
          (let sr = start_run win; er = end_run win;
               cs = char_start win; ce = char_end win;
               merged = slice rs sr er;
               out = take sr rs
           in (case replace_parts merged cs ce 0 ([], [], []) of
                 Inl e \<Rightarrow> Inl e
               | Inr (before_parts, del_parts, after_parts) \<Rightarrow>
                   (case from_html feed float_parse html of
                      Inl e \<Rightarrow> Inl e
                    | Inr inserted \<Rightarrow>
                        (case mark_inserted inserted comment True of
                           Inl e \<Rightarrow> Inl e
                         | Inr ins \<Rightarrow>
                             Inr (out @ before_parts @ del_parts @ ins @ after_parts
                                  @ drop er rs))))))"

section \<open>Paragraphs and tables: data model\<close>

text \<open>
  Of the style of a paragraph only the name is read by the functions modelled here; its
  other fields (alignment, spacing, fonts, borders) are left out.
\<close>

record ParagraphStyleModel =
  style_name :: string

record 'f ParagraphModel =
  style :: "ParagraphStyleModel option"
  runs :: "'f RunModel list"
  para_type :: string
  para_id :: "string option"
  parent_ref_id :: "string option"
  is_caption :: "bool option"
  is_heading :: "bool option"
  heading_level :: "int option"
  is_example :: "bool option"
  is_instruction :: "bool option"
  is_list :: "bool option"
  list_type :: "string option"
  list_level :: "int option"

text \<open>\<^verbatim>\<open>ParagraphModel(style=s, runs=rs)\<close>: the other fields take their defaults.\<close>

definition mk_paragraph :: "ParagraphStyleModel option \<Rightarrow> 'f RunModel list \<Rightarrow> 'f ParagraphModel" where
  "mk_paragraph s rs =
     \<lparr>style = s, runs = rs, para_type = ''Paragraph'', para_id = None, parent_ref_id = None,
      is_caption = Some False, is_heading = Some False, heading_level = None,
      is_example = Some False, is_instruction = Some False, is_list = Some False,
      list_type = None, list_level = Some 0\<rparr>"

record 'f TableCellModel =
  paragraphs :: "'f ParagraphModel list"
  colspan :: int
  rowspan :: int
  cell_type :: string
  cell_id :: "string option"

text \<open>A slot of a row is a cell or \<^verbatim>\<open>None\<close> (covered by a span).\<close>

record 'f TableModel =
  rows :: "'f TableCellModel option list list"
  table_type :: string
  table_id :: "string option"
  table_parent_ref_id :: "string option"
  caption_ref_id :: "string option"

section \<open>Intent of a paragraph from the colours of its runs\<close>

text \<open>
  \<^verbatim>\<open>RunModel.get_color\<close>: nothing for a run without attributes; else the font colour
  in upper case, else the six hex digits, in upper case, of the first style class that
  the pattern \<^verbatim>\<open>color:([0-9A-Fa-f]{6})\<close> matches at its start. \<^verbatim>\<open>str.upper\<close> is the
  parameter \<open>str_upper\<close>.
\<close>

definition is_hex_digit :: "char \<Rightarrow> bool" where
  "is_hex_digit c =
     (let n = of_char c :: nat
      in (48 \<le> n \<and> n \<le> 57) \<or> (65 \<le> n \<and> n \<le> 70) \<or> (97 \<le> n \<and> n \<le> 102))"

definition hex_value :: "char \<Rightarrow> int" where
  "hex_value c =
     (let n = of_char c :: nat
      in if n \<le> 57 then int n - 48 else if n \<le> 70 then int n - 55 else int n - 87)"

definition match_color :: "string \<Rightarrow> string option" where
  "match_color s =
     (if prefix ''color:'' s \<and> length s \<ge> 12 \<and> list_all is_hex_digit (slice s 6 12)
      then Some (slice s 6 12) else None)"

fun first_color :: "(string \<Rightarrow> string) \<Rightarrow> string list \<Rightarrow> string option" where
  "first_color str_upper [] = None"
| "first_color str_upper (s # ss) =
     (case match_color s of
        Some g \<Rightarrow> Some (str_upper g)
      | None \<Rightarrow> first_color str_upper ss)"

definition get_color :: "(string \<Rightarrow> string) \<Rightarrow> 'f RunModel \<Rightarrow> string option" where
  "get_color str_upper run =
     (case attributes run of
        None \<Rightarrow> None
      | Some attrs \<Rightarrow>
          if str_truthy (font_color attrs) then Some (str_upper (the (font_color attrs)))
          else if list_truthy (styles attrs) then first_color str_upper (the (styles attrs))
          else None)"

text \<open>
  Python's \<^verbatim>\<open>int(s, 16)\<close> on a string of two characters (the only strings
  \<^verbatim>\<open>hex_to_rgb\<close> passes to it): two hex digits, or one hex digit with a sign before it or
  white space on one side; \<open>None\<close> where it raises \<^verbatim>\<open>ValueError\<close>. The white space that
  \<^verbatim>\<open>int\<close> skips is the code points 9 to 13 and 32 and, being beyond ASCII, 133 and 160;
  the code points 28 to 31 are not skipped.
\<close>

definition is_int_space :: "char \<Rightarrow> bool" where
  "is_int_space c =
     (let n = of_char c :: nat in (9 \<le> n \<and> n \<le> 13) \<or> n = 32 \<or> n = 133 \<or> n = 160)"

definition int16 :: "string \<Rightarrow> int option" where
  "int16 s =
     (case s of
        [a, b] \<Rightarrow>
          if is_hex_digit a \<and> is_hex_digit b then Some (16 * hex_value a + hex_value b)
          else if is_int_space a \<and> is_hex_digit b then Some (hex_value b)
          else if is_hex_digit a \<and> is_int_space b then Some (hex_value a)
          else if a = CHR ''+'' \<and> is_hex_digit b then Some (hex_value b)
          else if a = CHR ''-'' \<and> is_hex_digit b then Some (- hex_value b)
          else None
      | _ \<Rightarrow> None)"

type_synonym rgb = "int \<times> int \<times> int"

definition hex_to_rgb :: "string \<Rightarrow> error + rgb option" where
  "hex_to_rgb hex_color0 =
     (let hex_color = filter (\<lambda>c. c \<noteq> CHR ''#'') hex_color0
      in if length hex_color \<noteq> 6 then Inr None
         else (case (int16 (slice hex_color 0 2), int16 (slice hex_color 2 4),
                     int16 (slice hex_color 4 6)) of
                 (Some r, Some g, Some b) \<Rightarrow> Inr (Some (r, g, b))
               | _ \<Rightarrow> Inl ValueError))"

text \<open>
  \<^verbatim>\<open>color_distance\<close> raises an integer, the sum of the squared differences, to the
  power \<^verbatim>\<open>0.5\<close>; it is modelled by the real square root. The code compares its result
  with 10 and with 60 only, whose squares are integers, so the comparisons of the
  floating-point result are those of the real one.
\<close>

definition dist_sq :: "rgb \<Rightarrow> rgb \<Rightarrow> int" where
  "dist_sq c1 c2 =
     (case (c1, c2) of
        ((r1, g1, b1), (r2, g2, b2)) \<Rightarrow> (r1 - r2)\<^sup>2 + (g1 - g2)\<^sup>2 + (b1 - b2)\<^sup>2)"

definition color_distance :: "rgb \<Rightarrow> rgb \<Rightarrow> real" where
  "color_distance c1 c2 = sqrt (real_of_int (dist_sq c1 c2))"

definition GREEN_REF :: rgb where
  "GREEN_REF = (0, 176, 80)"

definition RED_REF :: rgb where
  "RED_REF = (201, 33, 30)"

definition COLOR_THRESHOLD :: real where
  "COLOR_THRESHOLD = 60"

text \<open>
  The loop of \<^verbatim>\<open>classify_intent\<close> over the runs: \<open>Inr None\<close> is the early
  \<^verbatim>\<open>return None\<close>, \<open>Inl\<close> the exception of \<^verbatim>\<open>int\<close>.
\<close>

fun collect_colors ::
  "(string \<Rightarrow> string) \<Rightarrow> 'f RunModel list \<Rightarrow> rgb list \<Rightarrow> error + rgb list option"
where
  "collect_colors str_upper [] colors = Inr (Some colors)"
| "collect_colors str_upper (run # rs) colors =
     (case get_color str_upper run of
        None \<Rightarrow> Inr None
      | Some color \<Rightarrow>
          if color = [] then Inr None
          else (case hex_to_rgb color of
                  Inl e \<Rightarrow> Inl e
                | Inr None \<Rightarrow> Inr None
                | Inr (Some rgb) \<Rightarrow> collect_colors str_upper rs (colors @ [rgb])))"

definition classify_intent ::
  "(string \<Rightarrow> string) \<Rightarrow> 'f ParagraphModel \<Rightarrow> error + string option"
where
  "classify_intent str_upper p =
     (case collect_colors str_upper (runs p) [] of
        Inl e \<Rightarrow> Inl e
      | Inr None \<Rightarrow> Inr None
      | Inr (Some colors) \<Rightarrow>
          (case colors of
             [] \<Rightarrow> Inr None
           | base # _ \<Rightarrow>
               if list_ex (\<lambda>c. color_distance base c > 10) colors then Inr None
               else if color_distance base GREEN_REF < COLOR_THRESHOLD then Inr (Some ''instruction'')
               else if color_distance base RED_REF < COLOR_THRESHOLD then Inr (Some ''example'')
               else Inr None))"

text \<open>
  The words of the specification: a colour of six hex digits, and its three components.
\<close>

definition is_hex6 :: "string \<Rightarrow> bool" where
  "is_hex6 c = (length c = 6 \<and> list_all is_hex_digit c)"

definition rgb_of :: "string \<Rightarrow> rgb" where
  "rgb_of c =
     (16 * hex_value (c ! 0) + hex_value (c ! 1),
      16 * hex_value (c ! 2) + hex_value (c ! 3),
      16 * hex_value (c ! 4) + hex_value (c ! 5))"

text \<open>A run resolves to a valid colour of six hex digits.\<close>

definition resolved :: "(string \<Rightarrow> string) \<Rightarrow> 'f RunModel \<Rightarrow> bool" where
  "resolved str_upper r = (case get_color str_upper r of None \<Rightarrow> False | Some c \<Rightarrow> is_hex6 c)"

section \<open>Table classification\<close>

definition get_col_count :: "'f TableModel \<Rightarrow> error + int" where
  "get_col_count t = (case rows t of [] \<Rightarrow> Inl IndexError | r0 # _ \<Rightarrow> Inr (int (length r0)))"

definition get_type :: "'f TableModel \<Rightarrow> error + string" where
  "get_type t =
     (case get_col_count t of
        Inl e \<Rightarrow> Inl e
      | Inr col_count \<Rightarrow>
          (case rows t of
             [] \<Rightarrow> Inl IndexError
           | r0 # _ \<Rightarrow>
               (let colspan_count = sum_list [colspan cell. Some cell \<leftarrow> slice r0 0 2]
                in if col_count = 1 then Inr ''Layout''
                   else if col_count - colspan_count = 0 then Inr ''Keyvalue''
                   else Inr ''Unknown'')))"

section \<open>The contract of replacing text, as the specification words it\<close>

text \<open>
  The specification of \<^verbatim>\<open>replaceText\<close> splits each run of the window into a before, a
  middle and an after fragment. \<open>fragments\<close> follows these words: the \<open>k\<close>-th run of the
  window is split at the character range of the match, shifted by the number of
  characters of the window that precede the run. \<open>tracked\<close> sets the tracked change of
  a run that has attributes; \<open>insertion_runs\<close> marks every parsed run as an insertion and
  attaches the comment to the first one only. \<open>frags_from\<close> is the
  same list of fragments by recursion over the runs, used in the proofs.
\<close>

definition window_offset :: "'f RunModel list \<Rightarrow> nat \<Rightarrow> int" where
  "window_offset merged k = int (length (concat (map run_text (take k merged))))"

definition fragments ::
  "'f RunModel list \<Rightarrow> int \<Rightarrow> int \<Rightarrow>
   ('f RunModel option \<times> 'f RunModel option \<times> 'f RunModel option) list"
where
  "fragments merged cs ce =
     map (\<lambda>k. let r = merged ! k; offset = window_offset merged k
              in split_run r (max 0 (cs - offset)) (min (int (length (run_text r))) (ce - offset)))
         [0..<length merged]"

definition frag_before :: "'a option \<times> 'a option \<times> 'a option \<Rightarrow> 'a option" where
  "frag_before f = fst f"

definition frag_middle :: "'a option \<times> 'a option \<times> 'a option \<Rightarrow> 'a option" where
  "frag_middle f = fst (snd f)"

definition frag_after :: "'a option \<times> 'a option \<times> 'a option \<Rightarrow> 'a option" where
  "frag_after f = snd (snd f)"

definition tracked :: "string \<Rightarrow> 'f RunModel \<Rightarrow> 'f RunModel" where
  "tracked mark r =
     r\<lparr>attributes := map_option (\<lambda>a. a\<lparr>tracked_change := Some mark\<rparr>) (attributes r)\<rparr>"

definition insertion_runs :: "'f RunModel list \<Rightarrow> string option \<Rightarrow> 'f RunModel list" where
  "insertion_runs inserted comment =
     (case inserted of
        [] \<Rightarrow> []
      | r # rest \<Rightarrow>
          (if str_truthy comment then set_comment_text comment (tracked ''ins'' r)
           else tracked ''ins'' r)
          # map (tracked ''ins'') rest)"

fun frags_from ::
  "'f RunModel list \<Rightarrow> int \<Rightarrow> int \<Rightarrow> int \<Rightarrow>
   ('f RunModel option \<times> 'f RunModel option \<times> 'f RunModel option) list"
where
  "frags_from [] cs ce offset = []"
| "frags_from (r # rs) cs ce offset =
     split_run r (max 0 (cs - offset)) (min (int (length (run_text r))) (ce - offset))
     # frags_from rs cs ce (offset + int (length (run_text r)))"

section \<open>Layouts and documents: data model\<close>

record 'f HeaderModel =
  header_runs :: "'f RunModel list"
  header_type :: string
  header_id :: "string option"

record 'f FooterModel =
  footer_runs :: "'f RunModel list"
  footer_type :: string
  footer_id :: "string option"

datatype 'f ElementModel = Paragraph "'f ParagraphModel" | Table "'f TableModel"

text \<open>
  The list of elements of a layout is a Python list: an entry is a paragraph, a table or
  \<^verbatim>\<open>None\<close> (which \<^verbatim>\<open>LayoutModel.from_dict\<close> stores for a record of another type).
\<close>

record 'f LayoutModel =
  orientation :: string
  header :: "'f HeaderModel option"
  footer :: "'f FooterModel option"
  elements :: "'f ElementModel option list"
  layout_type :: string
  layout_id :: "string option"

section \<open>Deserialization of a layout\<close>

text \<open>
  The input of \<^verbatim>\<open>LayoutModel.from_dict\<close> is a dictionary. Its entries are modelled by
  a record: the orientation, the type and the id as the strings they hold (if present),
  the header, the footer and the element records as dictionaries of a type \<open>'d\<close>. What
  the code reads of an element record is \<^verbatim>\<open>data.get("type")\<close>, the parameter \<open>type_of\<close>;
  the deserializers of the parts are the parameters \<open>header_from_dict\<close>,
  \<open>footer_from_dict\<close>, \<open>paragraph_from_dict\<close> and \<open>table_from_dict\<close>, which may raise.
\<close>

record 'd layout_dict =
  d_orientation :: "string option"
  d_header :: "'d option"
  d_footer :: "'d option"
  d_elements :: "'d list option"
  d_type :: "string option"
  d_id :: "string option"

definition element_from_dict ::
  "('d \<Rightarrow> string option) \<Rightarrow> ('d \<Rightarrow> error + 'f ParagraphModel) \<Rightarrow> ('d \<Rightarrow> error + 'f TableModel) \<Rightarrow>
   'd \<Rightarrow> error + 'f ElementModel option"
where
  "element_from_dict type_of paragraph_from_dict table_from_dict data =
     (if type_of data = Some ''Paragraph''
      then (case paragraph_from_dict data of Inl e \<Rightarrow> Inl e | Inr p \<Rightarrow> Inr (Some (Paragraph p)))
      else if type_of data = Some ''Table''
      then (case table_from_dict data of Inl e \<Rightarrow> Inl e | Inr t \<Rightarrow> Inr (Some (Table t)))
      else Inr None)"

text \<open>The list comprehension over the element records; the first exception ends it.\<close>

fun elements_from_dict ::
  "('d \<Rightarrow> string option) \<Rightarrow> ('d \<Rightarrow> error + 'f ParagraphModel) \<Rightarrow> ('d \<Rightarrow> error + 'f TableModel) \<Rightarrow>
   'd list \<Rightarrow> error + 'f ElementModel option list"
where
  "elements_from_dict type_of pfd tfd [] = Inr []"
| "elements_from_dict type_of pfd tfd (el # els) =
     (case element_from_dict type_of pfd tfd el of
        Inl e \<Rightarrow> Inl e
      | Inr x \<Rightarrow>
          (case elements_from_dict type_of pfd tfd els of
             Inl e \<Rightarrow> Inl e
           | Inr xs \<Rightarrow> Inr (x # xs)))"

text \<open>
  \<^verbatim>\<open>LayoutModel.from_dict\<close>. The constructor raises \<^verbatim>\<open>TypeError\<close> when the orientation is missing; the type and the id take their
  defaults when they are.
\<close>

definition layout_from_dict ::
  "('d \<Rightarrow> error + 'f HeaderModel) \<Rightarrow> ('d \<Rightarrow> error + 'f FooterModel) \<Rightarrow>
   ('d \<Rightarrow> string option) \<Rightarrow> ('d \<Rightarrow> error + 'f ParagraphModel) \<Rightarrow> ('d \<Rightarrow> error + 'f TableModel) \<Rightarrow>
   'd layout_dict \<Rightarrow> error + 'f LayoutModel"
where
  "layout_from_dict header_from_dict footer_from_dict type_of pfd tfd data =
     (case (case d_header data of
              None \<Rightarrow> Inr None
            | Some h \<Rightarrow> (case header_from_dict h of Inl e \<Rightarrow> Inl e | Inr x \<Rightarrow> Inr (Some x))) of
        Inl e \<Rightarrow> Inl e
      | Inr hdr \<Rightarrow>
          (case (case d_footer data of
                   None \<Rightarrow> Inr None
                 | Some f \<Rightarrow> (case footer_from_dict f of Inl e \<Rightarrow> Inl e | Inr x \<Rightarrow> Inr (Some x))) of
             Inl e \<Rightarrow> Inl e
           | Inr ftr \<Rightarrow>
               (case elements_from_dict type_of pfd tfd
                       (case d_elements data of None \<Rightarrow> [] | Some els \<Rightarrow> els) of
                  Inl e \<Rightarrow> Inl e
                | Inr elems \<Rightarrow>
                    (case d_orientation data of
                       None \<Rightarrow> Inl TypeError
                     | Some ori \<Rightarrow>
                         Inr \<lparr>orientation = ori, header = hdr, footer = ftr, elements = elems,
                              layout_type = (case d_type data of None \<Rightarrow> ''Layout'' | Some t \<Rightarrow> t),
                              layout_id = d_id data\<rparr>))))"

text \<open>\<^verbatim>\<open>TableModel(rows=rs)\<close>: the other fields take their defaults.\<close>

definition mk_table :: "'f TableCellModel option list list \<Rightarrow> 'f TableModel" where
  "mk_table rs = \<lparr>rows = rs, table_type = ''Table'', table_id = None,
                  table_parent_ref_id = None, caption_ref_id = None\<rparr>"

text \<open>An element record of a type that \<^verbatim>\<open>element_from_dict\<close> recognizes.\<close>

definition recognized :: "('d \<Rightarrow> string option) \<Rightarrow> 'd \<Rightarrow> bool" where
  "recognized type_of data = (type_of data = Some ''Paragraph'' \<or> type_of data = Some ''Table'')"

section \<open>Classifying the style of a paragraph\<close>

text \<open>
  \<^verbatim>\<open>ParagraphStyleModel.classify_style\<close>. The fuzzy match of the standard library,
  \<^verbatim>\<open>difflib.get_close_matches(name, patterns, cutoff=0.7)\<close>, is the parameter
  \<open>get_close_matches\<close>. The search of the pattern \<^verbatim>\<open>heading\s*(\d+)\<close>, ignoring case, is
  written out: at the first position where \<open>heading\<close>, any white space and at least one
  digit follow one another, the level is the number of the longest run of digits.
\<close>

definition normalize :: "string \<Rightarrow> string" where
  "normalize s = (if s \<noteq> [] then strip (lower s) else [])"

definition is_digit :: "char \<Rightarrow> bool" where
  "is_digit c = (let n = of_char c :: nat in 48 \<le> n \<and> n \<le> 57)"

fun int_of_digits :: "string \<Rightarrow> int \<Rightarrow> int" where
  "int_of_digits [] acc = acc"
| "int_of_digits (c # cs) acc = int_of_digits cs (10 * acc + (int (of_char c) - 48))"

definition heading_level_at :: "string \<Rightarrow> int option" where
  "heading_level_at s =
     (if lower (take 7 s) = ''heading''
      then (let digits = takeWhile is_digit (dropWhile is_space (drop 7 s))
            in if digits \<noteq> [] then Some (int_of_digits digits 0) else None)
      else None)"

fun search_heading_level :: "string \<Rightarrow> int option" where
  "search_heading_level [] = None"
| "search_heading_level (c # s) =
     (case heading_level_at (c # s) of
        Some l \<Rightarrow> Some l
      | None \<Rightarrow> search_heading_level s)"

definition extract_heading_level :: "string \<Rightarrow> int option" where
  "extract_heading_level nm =
     (if nm = [] then None else search_heading_level nm)"

definition is_fuzzy_match ::
  "(string \<Rightarrow> string list \<Rightarrow> string list) \<Rightarrow> string \<Rightarrow> string list \<Rightarrow> bool"
where
  "is_fuzzy_match get_close_matches name patterns =
     (get_close_matches (normalize name) patterns \<noteq> [])"

definition classify_style ::
  "(string \<Rightarrow> string list \<Rightarrow> string list) \<Rightarrow> ParagraphStyleModel \<Rightarrow> string option \<times> int option"
where
  "classify_style get_close_matches s =
     (if style_name s = [] then (None, None)
      else
        (let name = normalize (style_name s)
         in if is_fuzzy_match get_close_matches name [''caption''] then (Some ''caption'', None)
            else if is_fuzzy_match get_close_matches name [''heading'']
            then (Some ''heading'', extract_heading_level name)
            else (None, None)))"

section \<open>Documents\<close>

text \<open>
  The two caches of a document hold references to objects of its tree. A reference is
  modelled by the position the object had in the tree when the cache was built. The
  caches are dictionaries in insertion order; the keys of the paragraph index are the
  ids of the paragraphs, which may be \<^verbatim>\<open>None\<close>.
\<close>

datatype ref =
  LayoutRef nat
| HeaderRef nat
| FooterRef nat
| ElementRef nat nat
| RunRef nat nat nat
| CellRef nat nat nat nat
| CellParaRef nat nat nat nat nat
| CellRunRef nat nat nat nat nat nat

record 'f DocumentModel =
  layouts :: "'f LayoutModel list"
  doc_type :: string
  doc_id :: "string option"
  filename :: "string option"
  element_index :: "(string \<times> ref) list"
  paragraph_index :: "(string option \<times> ref) list"
  paragraph_order :: "string option list"

definition iter_elements :: "'f DocumentModel \<Rightarrow> 'f ElementModel option list" where
  "iter_elements doc = concat (map elements (layouts doc))"

section \<open>Building the hierarchy\<close>

text \<open>
  The state of the pass of \<^verbatim>\<open>build_hierarchy\<close> over the elements: the dictionary
  \<^verbatim>\<open>heading_stack\<close> from levels to ids (an id may be \<^verbatim>\<open>None\<close>), the id of the last
  heading and the id of the last caption.
\<close>

record hier_state =
  heading_stack :: "int \<rightharpoonup> string option"
  last_heading_id :: "string option"
  last_caption_id :: "string option"

text \<open>The loop \<^verbatim>\<open>for l in range(level - 1, 0, -1)\<close> that looks for the parent.\<close>

fun find_parent :: "(int \<rightharpoonup> string option) \<Rightarrow> int list \<Rightarrow> string option" where
  "find_parent hs [] = None"
| "find_parent hs (l # ls) =
     (case hs l of
        Some parent \<Rightarrow> parent
      | None \<Rightarrow> find_parent hs ls)"

text \<open>
  The intent of a paragraph sets its flags; the intent of the paragraphs of the cells of
  a table likewise. A slot of a row that is \<^verbatim>\<open>None\<close> raises \<^verbatim>\<open>AttributeError\<close>.
  \<open>str_upper\<close> is the parameter of \<open>get_color\<close>.
\<close>

definition set_intent ::
  "(string \<Rightarrow> string) \<Rightarrow> 'f ParagraphModel \<Rightarrow> error + 'f ParagraphModel"
where
  "set_intent str_upper p =
     (case classify_intent str_upper p of
        Inl e \<Rightarrow> Inl e
      | Inr intent \<Rightarrow>
          (let p1 = (if intent = Some ''instruction'' then p\<lparr>is_instruction := Some True\<rparr> else p);
               p2 = (if intent = Some ''example'' then p1\<lparr>is_example := Some True\<rparr> else p1)
           in Inr p2))"

fun intent_paragraphs ::
  "(string \<Rightarrow> string) \<Rightarrow> 'f ParagraphModel list \<Rightarrow> error + 'f ParagraphModel list" where
  "intent_paragraphs str_upper [] = Inr []"
| "intent_paragraphs str_upper (p # ps) =
     (case set_intent str_upper p of
        Inl e \<Rightarrow> Inl e
      | Inr p1 \<Rightarrow>
          (case intent_paragraphs str_upper ps of
             Inl e \<Rightarrow> Inl e
           | Inr ps1 \<Rightarrow> Inr (p1 # ps1)))"

fun intent_row ::
  "(string \<Rightarrow> string) \<Rightarrow> 'f TableCellModel option list \<Rightarrow> error + 'f TableCellModel option list"
where
  "intent_row str_upper [] = Inr []"
| "intent_row str_upper (None # cells) = Inl AttributeError"
| "intent_row str_upper (Some cell # cells) =
     (case intent_paragraphs str_upper (paragraphs cell) of
        Inl e \<Rightarrow> Inl e
      | Inr ps \<Rightarrow>
          (case intent_row str_upper cells of
             Inl e \<Rightarrow> Inl e
           | Inr cells1 \<Rightarrow> Inr (Some (cell\<lparr>paragraphs := ps\<rparr>) # cells1)))"

fun intent_rows ::
  "(string \<Rightarrow> string) \<Rightarrow> 'f TableCellModel option list list \<Rightarrow> error + 'f TableCellModel option list list"
where
  "intent_rows str_upper [] = Inr []"
| "intent_rows str_upper (row # rws) =
     (case intent_row str_upper row of
        Inl e \<Rightarrow> Inl e
      | Inr row1 \<Rightarrow>
          (case intent_rows str_upper rws of
             Inl e \<Rightarrow> Inl e
           | Inr rws1 \<Rightarrow> Inr (row1 # rws1)))"

text \<open>The body of the loop, for one element.\<close>

definition hier_paragraph ::
  "(string \<Rightarrow> string list \<Rightarrow> string list) \<Rightarrow> (string \<Rightarrow> string) \<Rightarrow> 'f ParagraphModel \<Rightarrow> hier_state \<Rightarrow>
   error + 'f ParagraphModel \<times> hier_state"
where
  "hier_paragraph get_close_matches str_upper elem st =
     (case style elem of
        None \<Rightarrow> Inl AttributeError
      | Some s \<Rightarrow>
          (let (kind, level) = classify_style get_close_matches s
           in if kind = Some ''heading'' \<and> level \<noteq> None \<and> level \<noteq> Some 0
              then
                (let lv = the level;
                     parent = find_parent (heading_stack st) (rev [1..lv - 1]);
                     elem1 = elem\<lparr>is_heading := Some True, heading_level := Some lv,
                                  parent_ref_id := parent\<rparr>;
                     hs1 = (heading_stack st)(lv \<mapsto> para_id elem);
                     hs2 = (\<lambda>l. if l > lv then None else hs1 l)
                 in Inr (elem1, \<lparr>heading_stack = hs2, last_heading_id = para_id elem,
                                   last_caption_id = None\<rparr>))
              else if kind = Some ''caption''
              then Inr (elem\<lparr>is_caption := Some True, parent_ref_id := last_heading_id st\<rparr>,
                        st\<lparr>last_caption_id := para_id elem\<rparr>)
              else
                (case set_intent str_upper elem of
                   Inl e \<Rightarrow> Inl e
                 | Inr elem1 \<Rightarrow>
                     Inr (elem1\<lparr>parent_ref_id := last_heading_id st\<rparr>,
                          st\<lparr>last_caption_id := None\<rparr>))))"

definition hier_table ::
  "(string \<Rightarrow> string) \<Rightarrow> 'f TableModel \<Rightarrow> hier_state \<Rightarrow> error + 'f TableModel \<times> hier_state"
where
  "hier_table str_upper elem st =
     (let elem1 = elem\<lparr>table_parent_ref_id := last_heading_id st\<rparr>;
          elem2 = (if str_truthy (last_caption_id st)
                   then elem1\<lparr>caption_ref_id := last_caption_id st\<rparr> else elem1)
      in (case intent_rows str_upper (rows elem2) of
            Inl e \<Rightarrow> Inl e
          | Inr rws \<Rightarrow> Inr (elem2\<lparr>rows := rws\<rparr>, st\<lparr>last_caption_id := None\<rparr>)))"

definition hier_element ::
  "(string \<Rightarrow> string list \<Rightarrow> string list) \<Rightarrow> (string \<Rightarrow> string) \<Rightarrow> 'f ElementModel option \<Rightarrow> hier_state \<Rightarrow>
   error + 'f ElementModel option \<times> hier_state"
where
  "hier_element get_close_matches str_upper elem st =
     (case elem of
        None \<Rightarrow> Inr (None, st)
      | Some (Paragraph p) \<Rightarrow>
          (case hier_paragraph get_close_matches str_upper p st of
             Inl e \<Rightarrow> Inl e
           | Inr (p1, st1) \<Rightarrow> Inr (Some (Paragraph p1), st1))
      | Some (Table t) \<Rightarrow>
          (case hier_table str_upper t st of
             Inl e \<Rightarrow> Inl e
           | Inr (t1, st1) \<Rightarrow> Inr (Some (Table t1), st1)))"

text \<open>The loop over \<^verbatim>\<open>iter_elements()\<close>: the elements of a layout, and the layouts.\<close>

fun hier_elements ::
  "(string \<Rightarrow> string list \<Rightarrow> string list) \<Rightarrow> (string \<Rightarrow> string) \<Rightarrow> 'f ElementModel option list \<Rightarrow> hier_state \<Rightarrow>
   error + 'f ElementModel option list \<times> hier_state"
where
  "hier_elements gcm str_upper [] st = Inr ([], st)"
| "hier_elements gcm str_upper (elem # elems) st =
     (case hier_element gcm str_upper elem st of
        Inl e \<Rightarrow> Inl e
      | Inr (elem1, st1) \<Rightarrow>
          (case hier_elements gcm str_upper elems st1 of
             Inl e \<Rightarrow> Inl e
           | Inr (elems1, st2) \<Rightarrow> Inr (elem1 # elems1, st2)))"

fun hier_layouts ::
  "(string \<Rightarrow> string list \<Rightarrow> string list) \<Rightarrow> (string \<Rightarrow> string) \<Rightarrow> 'f LayoutModel list \<Rightarrow> hier_state \<Rightarrow>
   error + 'f LayoutModel list \<times> hier_state"
where
  "hier_layouts gcm str_upper [] st = Inr ([], st)"
| "hier_layouts gcm str_upper (layout # ls) st =
     (case hier_elements gcm str_upper (elements layout) st of
        Inl e \<Rightarrow> Inl e
      | Inr (elems1, st1) \<Rightarrow>
          (case hier_layouts gcm str_upper ls st1 of
             Inl e \<Rightarrow> Inl e
           | Inr (ls1, st2) \<Rightarrow> Inr (layout\<lparr>elements := elems1\<rparr> # ls1, st2)))"


definition build_hierarchy ::
  "(string \<Rightarrow> string list \<Rightarrow> string list) \<Rightarrow> (string \<Rightarrow> string) \<Rightarrow> 'f DocumentModel \<Rightarrow> error + 'f DocumentModel"
where
  "build_hierarchy get_close_matches str_upper doc =
     (case hier_layouts get_close_matches str_upper (layouts doc)
             \<lparr>heading_stack = Map.empty, last_heading_id = None, last_caption_id = None\<rparr> of
        Inl e \<Rightarrow> Inl e
      | Inr (ls, st) \<Rightarrow> Inr (doc\<lparr>layouts := ls\<rparr>))"

text \<open>The back-reference of an element to its heading.\<close>

definition parent_of :: "'f ElementModel option \<Rightarrow> string option" where
  "parent_of elem =
     (case elem of
        None \<Rightarrow> None
      | Some (Paragraph p) \<Rightarrow> parent_ref_id p
      | Some (Table t) \<Rightarrow> table_parent_ref_id t)"

section \<open>Placeholders\<close>

text \<open>
  Of a placeholder and of a matched node only the fields that the mutation engine reads
  are modelled.
\<close>

datatype PlaceholderStatus =
  MATCHING_PENDING | MATCHES_FOUND | MATCHES_NOT_FOUND
| REPLACEMENT_PENDING | REPLACEMENT_DONE | REPLACEMENT_NOT_FOUND

datatype PlaceholderFutureElement = PARAGRAPH | TABLE | UNKNOWN

record MatchedNode =
  match_id :: string
  heading_path :: "string list"
  match_filename :: string

record PlaceholderModel =
  ph_id :: string
  ph_text :: string
  status :: PlaceholderStatus
  replaced_text :: "string option"
  replaced_reference :: "string list option"
  replaced_comment :: "string option"
  deleted :: "bool option"
  matches :: "MatchedNode list"
  element_id :: "string option"
  future_element :: PlaceholderFutureElement

definition source_line :: "MatchedNode \<Rightarrow> string" where
  "source_line m =
     (let path = (if heading_path m \<noteq> [] then join '' > '' (heading_path m) else []);
          label = (if path \<noteq> [] then match_filename m @ '' > '' @ path else match_filename m)
      in ''- '' @ label)"

definition build_comment_text :: "PlaceholderModel \<Rightarrow> string option" where
  "build_comment_text ph =
     (if \<not> list_truthy (replaced_reference ph) then None
      else
        (let parts0 = (if str_truthy (replaced_comment ph) then [the (replaced_comment ph)] else []);
             ref_set = set (the (replaced_reference ph));
             lines = [source_line m. m \<leftarrow> matches ph, match_id m \<in> ref_set];
             parts = (if lines \<noteq> [] then parts0 @ [''Sources:'' @ [CHR 0x0A] @ join [CHR 0x0A] lines]
                      else parts0)
         in if parts \<noteq> [] then Some (join [CHR 0x0A, CHR 0x0A] parts) else None))"

section \<open>Applying a placeholder to an object\<close>

text \<open>
  The text of a list of runs in the mode \<^verbatim>\<open>full\<close>, and the edits of a list of runs that
  the paragraph, the header and the footer share: the inline replacement and the
  deletion. The results \<^verbatim>\<open>True\<close> and \<^verbatim>\<open>False\<close> of the methods are not read by
  \<^verbatim>\<open>apply_placeholders\<close> and are left out.
\<close>

definition runs_to_text :: "'f RunModel list \<Rightarrow> string" where
  "runs_to_text rs = concat (map run_text rs)"

definition inline_runs ::
  "(string \<Rightarrow> html_event list) \<Rightarrow> (string \<Rightarrow> 'f option) \<Rightarrow> 'f RunModel list \<Rightarrow>
   PlaceholderModel \<Rightarrow> error + 'f RunModel list"
where
  "inline_runs feed float_parse rs ph =
     (if \<not> str_truthy (replaced_text ph) then Inr rs
      else if \<not> sublist (ph_text ph) (runs_to_text rs) then Inr rs
      else replace_text feed float_parse rs (ph_text ph) (the (replaced_text ph))
             (build_comment_text ph))"

definition deleted_runs :: "'f RunModel list \<Rightarrow> PlaceholderModel \<Rightarrow> 'f RunModel list" where
  "deleted_runs rs ph =
     (if \<not> sublist (ph_text ph) (runs_to_text rs) then rs else drop_text rs (ph_text ph))"

definition para_apply_inline_placeholder ::
  "(string \<Rightarrow> html_event list) \<Rightarrow> (string \<Rightarrow> 'f option) \<Rightarrow> 'f ParagraphModel \<Rightarrow>
   PlaceholderModel \<Rightarrow> error + 'f ParagraphModel"
where
  "para_apply_inline_placeholder feed float_parse para ph =
     (case inline_runs feed float_parse (runs para) ph of
        Inl e \<Rightarrow> Inl e
      | Inr rs \<Rightarrow> Inr (para\<lparr>runs := rs\<rparr>))"

definition para_apply_deleted_placeholder ::
  "'f ParagraphModel \<Rightarrow> PlaceholderModel \<Rightarrow> 'f ParagraphModel"
where
  "para_apply_deleted_placeholder para ph = para\<lparr>runs := deleted_runs (runs para) ph\<rparr>"

definition header_apply_inline_placeholder ::
  "(string \<Rightarrow> html_event list) \<Rightarrow> (string \<Rightarrow> 'f option) \<Rightarrow> 'f HeaderModel \<Rightarrow>
   PlaceholderModel \<Rightarrow> error + 'f HeaderModel"
where
  "header_apply_inline_placeholder feed float_parse h ph =
     (case inline_runs feed float_parse (header_runs h) ph of
        Inl e \<Rightarrow> Inl e
      | Inr rs \<Rightarrow> Inr (h\<lparr>header_runs := rs\<rparr>))"

definition header_apply_deleted_placeholder ::
  "'f HeaderModel \<Rightarrow> PlaceholderModel \<Rightarrow> 'f HeaderModel"
where
  "header_apply_deleted_placeholder h ph = h\<lparr>header_runs := deleted_runs (header_runs h) ph\<rparr>"

definition footer_apply_inline_placeholder ::
  "(string \<Rightarrow> html_event list) \<Rightarrow> (string \<Rightarrow> 'f option) \<Rightarrow> 'f FooterModel \<Rightarrow>
   PlaceholderModel \<Rightarrow> error + 'f FooterModel"
where
  "footer_apply_inline_placeholder feed float_parse f ph =
     (case inline_runs feed float_parse (footer_runs f) ph of
        Inl e \<Rightarrow> Inl e
      | Inr rs \<Rightarrow> Inr (f\<lparr>footer_runs := rs\<rparr>))"

definition footer_apply_deleted_placeholder ::
  "'f FooterModel \<Rightarrow> PlaceholderModel \<Rightarrow> 'f FooterModel"
where
  "footer_apply_deleted_placeholder f ph = f\<lparr>footer_runs := deleted_runs (footer_runs f) ph\<rparr>"

text \<open>
  A table cell edits the first of its paragraphs whose text contains the target.
\<close>

fun cell_replace_first ::
  "(string \<Rightarrow> html_event list) \<Rightarrow> (string \<Rightarrow> 'f option) \<Rightarrow> 'f ParagraphModel list \<Rightarrow>
   PlaceholderModel \<Rightarrow> string option \<Rightarrow> error + 'f ParagraphModel list"
where
  "cell_replace_first feed float_parse [] ph comment = Inr []"
| "cell_replace_first feed float_parse (para # ps) ph comment =
     (if sublist (ph_text ph) (runs_to_text (runs para))
      then (case replace_text feed float_parse (runs para) (ph_text ph) (the (replaced_text ph))
                   comment of
              Inl e \<Rightarrow> Inl e
            | Inr rs \<Rightarrow> Inr (para\<lparr>runs := rs\<rparr> # ps))
      else (case cell_replace_first feed float_parse ps ph comment of
              Inl e \<Rightarrow> Inl e
            | Inr ps1 \<Rightarrow> Inr (para # ps1)))"

definition cell_apply_placeholder ::
  "(string \<Rightarrow> html_event list) \<Rightarrow> (string \<Rightarrow> 'f option) \<Rightarrow> 'f TableCellModel \<Rightarrow>
   PlaceholderModel \<Rightarrow> error + 'f TableCellModel"
where
  "cell_apply_placeholder feed float_parse cell ph =
     (if \<not> str_truthy (replaced_text ph) then Inr cell
      else (case cell_replace_first feed float_parse (paragraphs cell) ph (build_comment_text ph) of
              Inl e \<Rightarrow> Inl e
            | Inr ps \<Rightarrow> Inr (cell\<lparr>paragraphs := ps\<rparr>)))"

fun cell_drop_first :: "'f ParagraphModel list \<Rightarrow> PlaceholderModel \<Rightarrow> 'f ParagraphModel list" where
  "cell_drop_first [] ph = []"
| "cell_drop_first (para # ps) ph =
     (if sublist (ph_text ph) (runs_to_text (runs para))
      then para\<lparr>runs := drop_text (runs para) (ph_text ph)\<rparr> # ps
      else para # cell_drop_first ps ph)"

definition cell_apply_deleted_placeholder ::
  "'f TableCellModel \<Rightarrow> PlaceholderModel \<Rightarrow> 'f TableCellModel"
where
  "cell_apply_deleted_placeholder cell ph = cell\<lparr>paragraphs := cell_drop_first (paragraphs cell) ph\<rparr>"

section \<open>Structural replacement\<close>

text \<open>
  \<^verbatim>\<open>TableModel.from_html_or_text\<close> builds a table from the replacement text with the
  tokenizer of the standard library; it is the parameter \<open>table_of\<close>, which may raise.
\<close>

record 'f ElementReplacement =
  old_element_id :: "string option"
  new_elements :: "'f ElementModel list"

definition resolve_structural_replacement ::
  "(string \<Rightarrow> error + 'f TableModel) \<Rightarrow> 'f ParagraphModel \<Rightarrow> PlaceholderModel \<Rightarrow>
   error + 'f ElementReplacement option"
where
  "resolve_structural_replacement table_of element ph =
     (if future_element ph \<noteq> TABLE then Inr None
      else if \<not> str_truthy (replaced_text ph) then Inr None
      else (case table_of (the (replaced_text ph)) of
              Inl e \<Rightarrow> Inl e
            | Inr table \<Rightarrow>
                Inr (Some \<lparr>old_element_id = para_id element,
                           new_elements =
                             [Table (table\<lparr>table_parent_ref_id := parent_ref_id element\<rparr>)]\<rparr>)))"

definition elem_id :: "'f ElementModel \<Rightarrow> string option" where
  "elem_id elem = (case elem of Paragraph p \<Rightarrow> para_id p | Table t \<Rightarrow> table_id t)"

text \<open>
  \<^verbatim>\<open>_apply_replacement\<close>: the first element whose id is the old id, in the first layout
  that has one, is replaced by the new elements. Reading the id of an entry that is
  \<^verbatim>\<open>None\<close> raises \<^verbatim>\<open>AttributeError\<close>.
\<close>

fun splice_elements ::
  "'f ElementModel option list \<Rightarrow> 'f ElementReplacement \<Rightarrow>
   error + 'f ElementModel option list option"
where
  "splice_elements [] op = Inr None"
| "splice_elements (None # es) op = Inl AttributeError"
| "splice_elements (Some elem # es) op =
     (if elem_id elem = old_element_id op then Inr (Some (map Some (new_elements op) @ es))
      else (case splice_elements es op of
              Inl e \<Rightarrow> Inl e
            | Inr None \<Rightarrow> Inr None
            | Inr (Some es1) \<Rightarrow> Inr (Some (Some elem # es1))))"

fun replace_in_layouts ::
  "'f LayoutModel list \<Rightarrow> 'f ElementReplacement \<Rightarrow> error + 'f LayoutModel list"
where
  "replace_in_layouts [] op = Inr []"
| "replace_in_layouts (layout # ls) op =
     (case splice_elements (elements layout) op of
        Inl e \<Rightarrow> Inl e
      | Inr (Some es1) \<Rightarrow> Inr (layout\<lparr>elements := es1\<rparr> # ls)
      | Inr None \<Rightarrow>
          (case replace_in_layouts ls op of
             Inl e \<Rightarrow> Inl e
           | Inr ls1 \<Rightarrow> Inr (layout # ls1)))"

definition apply_replacement ::
  "'f ElementReplacement \<Rightarrow> 'f DocumentModel \<Rightarrow> error + 'f DocumentModel"
where
  "apply_replacement op doc =
     (case replace_in_layouts (layouts doc) op of
        Inl e \<Rightarrow> Inl e
      | Inr ls \<Rightarrow> Inr (doc\<lparr>layouts := ls\<rparr>))"

fun apply_replacements ::
  "'f ElementReplacement list \<Rightarrow> 'f DocumentModel \<Rightarrow> error + 'f DocumentModel"
where
  "apply_replacements [] doc = Inr doc"
| "apply_replacements (op # ops) doc =
     (case apply_replacement op doc of
        Inl e \<Rightarrow> Inl e
      | Inr doc1 \<Rightarrow> apply_replacements ops doc1)"

section \<open>The caches of a document\<close>

text \<open>
  \<^verbatim>\<open>_index_element\<close> stores an object under its id when the id is truthy; an entry that
  is \<^verbatim>\<open>None\<close> has no id. \<^verbatim>\<open>_build_element_index\<close> clears the index and walks the
  layouts, their headers, footers and elements, the cells, paragraphs and runs of the
  tables and the runs of the paragraphs.
\<close>

definition index_element :: "string option \<Rightarrow> ref \<Rightarrow> (string \<times> ref) list \<Rightarrow> (string \<times> ref) list" where
  "index_element i r idx = (if str_truthy i then AList.update (the i) r idx else idx)"

definition index_cell ::
  "nat \<Rightarrow> nat \<Rightarrow> nat \<Rightarrow> nat \<Rightarrow> 'f TableCellModel \<Rightarrow> (string \<times> ref) list \<Rightarrow> (string \<times> ref) list"
where
  "index_cell l e r c cell idx =
     fold (\<lambda>(pidx, para) idx1.
             fold (\<lambda>(ri, run). index_element (run_id run) (CellRunRef l e r c pidx ri))
                  (enumerate 0 (runs para))
                  (index_element (para_id para) (CellParaRef l e r c pidx) idx1))
          (enumerate 0 (paragraphs cell))
          (index_element (cell_id cell) (CellRef l e r c) idx)"

definition index_table ::
  "nat \<Rightarrow> nat \<Rightarrow> 'f TableModel \<Rightarrow> (string \<times> ref) list \<Rightarrow> (string \<times> ref) list"
where
  "index_table l e t idx =
     fold (\<lambda>(r, row) idx1.
             fold (\<lambda>(c, cell) idx2.
                     (case cell of None \<Rightarrow> idx2 | Some x \<Rightarrow> index_cell l e r c x idx2))
                  (enumerate 0 row) idx1)
          (enumerate 0 (rows t)) idx"

definition index_layout_element ::
  "nat \<Rightarrow> nat \<times> 'f ElementModel option \<Rightarrow> (string \<times> ref) list \<Rightarrow> (string \<times> ref) list"
where
  "index_layout_element l ie idx =
     (case ie of
        (e, None) \<Rightarrow> idx
      | (e, Some (Table t)) \<Rightarrow> index_table l e t (index_element (table_id t) (ElementRef l e) idx)
      | (e, Some (Paragraph p)) \<Rightarrow>
          fold (\<lambda>(ri, run). index_element (run_id run) (RunRef l e ri))
               (enumerate 0 (runs p))
               (index_element (para_id p) (ElementRef l e) idx))"

definition index_layout ::
  "nat \<times> 'f LayoutModel \<Rightarrow> (string \<times> ref) list \<Rightarrow> (string \<times> ref) list"
where
  "index_layout il idx =
     (case il of
        (l, layout) \<Rightarrow>
          (let idx1 = index_element (layout_id layout) (LayoutRef l) idx;
               idx2 = (case header layout of
                         None \<Rightarrow> idx1
                       | Some h \<Rightarrow> index_element (header_id h) (HeaderRef l) idx1);
               idx3 = (case footer layout of
                         None \<Rightarrow> idx2
                       | Some f \<Rightarrow> index_element (footer_id f) (FooterRef l) idx2)
           in fold (index_layout_element l) (enumerate 0 (elements layout)) idx3))"

definition build_element_index :: "'f DocumentModel \<Rightarrow> 'f DocumentModel" where
  "build_element_index doc =
     doc\<lparr>element_index := fold index_layout (enumerate 0 (layouts doc)) []\<rparr>"

definition get_element_by_id ::
  "'f DocumentModel \<Rightarrow> string option \<Rightarrow> 'f DocumentModel \<times> ref option"
where
  "get_element_by_id doc eid =
     (let doc1 = (if element_index doc = [] then build_element_index doc else doc)
      in (doc1, (case eid of None \<Rightarrow> None | Some k \<Rightarrow> map_of (element_index doc1) k)))"

definition invalidate_index :: "'f DocumentModel \<Rightarrow> 'f DocumentModel" where
  "invalidate_index doc = doc\<lparr>element_index := []\<rparr>"

definition invalidate_paragraph_index :: "'f DocumentModel \<Rightarrow> 'f DocumentModel" where
  "invalidate_paragraph_index doc = doc\<lparr>paragraph_index := [], paragraph_order := []\<rparr>"

text \<open>\<^verbatim>\<open>_build_paragraph_index\<close>: the paragraphs among the elements, in document order.\<close>

definition paragraph_entries :: "'f DocumentModel \<Rightarrow> (string option \<times> ref) list" where
  "paragraph_entries doc =
     concat (map (\<lambda>(l, layout).
                    concat (map (\<lambda>(e, elem).
                                   (case elem of
                                      Some (Paragraph p) \<Rightarrow> [(para_id p, ElementRef l e)]
                                    | _ \<Rightarrow> []))
                                (enumerate 0 (elements layout))))
                 (enumerate 0 (layouts doc)))"

definition build_paragraph_index :: "'f DocumentModel \<Rightarrow> 'f DocumentModel" where
  "build_paragraph_index doc =
     doc\<lparr>paragraph_index := fold (\<lambda>(k, r). AList.update k r) (paragraph_entries doc) [],
         paragraph_order := map fst (paragraph_entries doc)\<rparr>"

section \<open>Reading and writing the object of a reference\<close>

text \<open>
  The object that the index holds for an id is the object at the position of the
  reference: the inline edits of a batch move no layout, element or cell, and the
  structural edits come after them. Of a reference to a layout, a table or a run only
  the kind matters, which none of the edits applies to.
\<close>

definition nth_opt :: "'a list \<Rightarrow> nat \<Rightarrow> 'a option" where
  "nth_opt xs i = (if i < length xs then Some (xs ! i) else None)"

definition upd :: "nat \<Rightarrow> ('a \<Rightarrow> 'a) \<Rightarrow> 'a list \<Rightarrow> 'a list" where
  "upd i f xs = (if i < length xs then xs[i := f (xs ! i)] else xs)"

datatype 'f obj =
  ParagraphObj "'f ParagraphModel"
| TableCellObj "'f TableCellModel"
| HeaderObj "'f HeaderModel"
| FooterObj "'f FooterModel"
| OtherObj

definition cell_at :: "'f DocumentModel \<Rightarrow> nat \<Rightarrow> nat \<Rightarrow> nat \<Rightarrow> nat \<Rightarrow> 'f TableCellModel option" where
  "cell_at doc l e r c =
     (case nth_opt (layouts doc) l of
        None \<Rightarrow> None
      | Some layout \<Rightarrow>
          (case nth_opt (elements layout) e of
             Some (Some (Table t)) \<Rightarrow>
               (case nth_opt (rows t) r of
                  None \<Rightarrow> None
                | Some row \<Rightarrow> (case nth_opt row c of Some (Some cell) \<Rightarrow> Some cell | _ \<Rightarrow> None))
           | _ \<Rightarrow> None))"

definition deref :: "'f DocumentModel \<Rightarrow> ref \<Rightarrow> 'f obj" where
  "deref doc r =
     (case r of
        HeaderRef l \<Rightarrow>
          (case nth_opt (layouts doc) l of
             None \<Rightarrow> OtherObj
           | Some layout \<Rightarrow> (case header layout of None \<Rightarrow> OtherObj | Some h \<Rightarrow> HeaderObj h))
      | FooterRef l \<Rightarrow>
          (case nth_opt (layouts doc) l of
             None \<Rightarrow> OtherObj
           | Some layout \<Rightarrow> (case footer layout of None \<Rightarrow> OtherObj | Some f \<Rightarrow> FooterObj f))
      | ElementRef l e \<Rightarrow>
          (case nth_opt (layouts doc) l of
             None \<Rightarrow> OtherObj
           | Some layout \<Rightarrow>
               (case nth_opt (elements layout) e of
                  Some (Some (Paragraph p)) \<Rightarrow> ParagraphObj p
                | _ \<Rightarrow> OtherObj))
      | CellRef l e r c \<Rightarrow>
          (case cell_at doc l e r c of None \<Rightarrow> OtherObj | Some cell \<Rightarrow> TableCellObj cell)
      | CellParaRef l e r c pidx \<Rightarrow>
          (case cell_at doc l e r c of
             None \<Rightarrow> OtherObj
           | Some cell \<Rightarrow>
               (case nth_opt (paragraphs cell) pidx of None \<Rightarrow> OtherObj | Some p \<Rightarrow> ParagraphObj p))
      | _ \<Rightarrow> OtherObj)"

definition upd_layout :: "nat \<Rightarrow> ('f LayoutModel \<Rightarrow> 'f LayoutModel) \<Rightarrow> 'f DocumentModel \<Rightarrow> 'f DocumentModel" where
  "upd_layout l f doc = doc\<lparr>layouts := upd l f (layouts doc)\<rparr>"

definition upd_cell ::
  "nat \<Rightarrow> nat \<Rightarrow> nat \<Rightarrow> nat \<Rightarrow> ('f TableCellModel \<Rightarrow> 'f TableCellModel) \<Rightarrow>
   'f DocumentModel \<Rightarrow> 'f DocumentModel"
where
  "upd_cell l e r c f doc =
     upd_layout l
       (\<lambda>layout. layout\<lparr>elements :=
          upd e (\<lambda>elem. (case elem of
                            Some (Table t) \<Rightarrow>
                              Some (Table (t\<lparr>rows := upd r (upd c (map_option f)) (rows t)\<rparr>))
                          | _ \<Rightarrow> elem))
                (elements layout)\<rparr>)
       doc"

definition store :: "'f DocumentModel \<Rightarrow> ref \<Rightarrow> 'f obj \<Rightarrow> 'f DocumentModel" where
  "store doc r x =
     (case (r, x) of
        (HeaderRef l, HeaderObj h) \<Rightarrow> upd_layout l (\<lambda>layout. layout\<lparr>header := Some h\<rparr>) doc
      | (FooterRef l, FooterObj f) \<Rightarrow> upd_layout l (\<lambda>layout. layout\<lparr>footer := Some f\<rparr>) doc
      | (ElementRef l e, ParagraphObj p) \<Rightarrow>
          upd_layout l
            (\<lambda>layout. layout\<lparr>elements := upd e (\<lambda>_. Some (Paragraph p)) (elements layout)\<rparr>) doc
      | (CellRef l e r c, TableCellObj cell) \<Rightarrow> upd_cell l e r c (\<lambda>_. cell) doc
      | (CellParaRef l e r c pidx, ParagraphObj p) \<Rightarrow>
          upd_cell l e r c (\<lambda>cell. cell\<lparr>paragraphs := upd pidx (\<lambda>_. p) (paragraphs cell)\<rparr>) doc
      | _ \<Rightarrow> doc)"

section \<open>Applying a batch of placeholders\<close>

text \<open>
  The body of the loop of \<^verbatim>\<open>apply_placeholders\<close> for one placeholder: the state is the
  document and the list \<^verbatim>\<open>structural_ops\<close>.
\<close>

definition apply_deleted ::
  "'f DocumentModel \<Rightarrow> ref \<Rightarrow> PlaceholderModel \<Rightarrow> 'f DocumentModel"
where
  "apply_deleted doc r ph =
     (case deref doc r of
        ParagraphObj p \<Rightarrow> store doc r (ParagraphObj (para_apply_deleted_placeholder p ph))
      | TableCellObj c \<Rightarrow> store doc r (TableCellObj (cell_apply_deleted_placeholder c ph))
      | HeaderObj h \<Rightarrow> store doc r (HeaderObj (header_apply_deleted_placeholder h ph))
      | FooterObj f \<Rightarrow> store doc r (FooterObj (footer_apply_deleted_placeholder f ph))
      | OtherObj \<Rightarrow> doc)"

definition apply_done ::
  "(string \<Rightarrow> error + 'f TableModel) \<Rightarrow> (string \<Rightarrow> html_event list) \<Rightarrow> (string \<Rightarrow> 'f option) \<Rightarrow>
   'f DocumentModel \<Rightarrow> 'f ElementReplacement list \<Rightarrow> ref \<Rightarrow> PlaceholderModel \<Rightarrow>
   error + 'f DocumentModel \<times> 'f ElementReplacement list"
where
  "apply_done table_of feed float_parse doc ops r ph =
     (case deref doc r of
        HeaderObj h \<Rightarrow>
          (case header_apply_inline_placeholder feed float_parse h ph of
             Inl e \<Rightarrow> Inl e
           | Inr h1 \<Rightarrow> Inr (store doc r (HeaderObj h1), ops))
      | FooterObj f \<Rightarrow>
          (case footer_apply_inline_placeholder feed float_parse f ph of
             Inl e \<Rightarrow> Inl e
           | Inr f1 \<Rightarrow> Inr (store doc r (FooterObj f1), ops))
      | ParagraphObj p \<Rightarrow>
          (case resolve_structural_replacement table_of p ph of
             Inl e \<Rightarrow> Inl e
           | Inr (Some op) \<Rightarrow> Inr (doc, ops @ [op])
           | Inr None \<Rightarrow>
               (case para_apply_inline_placeholder feed float_parse p ph of
                  Inl e \<Rightarrow> Inl e
                | Inr p1 \<Rightarrow> Inr (store doc r (ParagraphObj p1), ops)))
      | TableCellObj c \<Rightarrow>
          (case cell_apply_placeholder feed float_parse c ph of
             Inl e \<Rightarrow> Inl e
           | Inr c1 \<Rightarrow> Inr (store doc r (TableCellObj c1), ops))
      | OtherObj \<Rightarrow> Inr (doc, ops))"

definition apply_one ::
  "(string \<Rightarrow> error + 'f TableModel) \<Rightarrow> (string \<Rightarrow> html_event list) \<Rightarrow> (string \<Rightarrow> 'f option) \<Rightarrow>
   PlaceholderModel \<Rightarrow> 'f DocumentModel \<times> 'f ElementReplacement list \<Rightarrow>
   error + 'f DocumentModel \<times> 'f ElementReplacement list"
where
  "apply_one table_of feed float_parse ph s =
     (case s of
        (doc, ops) \<Rightarrow>
          if flag (deleted ph)
          then (case get_element_by_id doc (element_id ph) of
                  (doc1, None) \<Rightarrow> Inr (doc1, ops)
                | (doc1, Some r) \<Rightarrow> Inr (apply_deleted doc1 r ph, ops))
          else if status ph \<noteq> REPLACEMENT_DONE then Inr (doc, ops)
          else (case get_element_by_id doc (element_id ph) of
                  (doc1, None) \<Rightarrow> Inr (doc1, ops)
                | (doc1, Some r) \<Rightarrow> apply_done table_of feed float_parse doc1 ops r ph))"

fun apply_loop ::
  "(string \<Rightarrow> error + 'f TableModel) \<Rightarrow> (string \<Rightarrow> html_event list) \<Rightarrow> (string \<Rightarrow> 'f option) \<Rightarrow>
   PlaceholderModel list \<Rightarrow> 'f DocumentModel \<times> 'f ElementReplacement list \<Rightarrow>
   error + 'f DocumentModel \<times> 'f ElementReplacement list"
where
  "apply_loop table_of feed float_parse [] s = Inr s"
| "apply_loop table_of feed float_parse (ph # phs) s =
     (case apply_one table_of feed float_parse ph s of
        Inl e \<Rightarrow> Inl e
      | Inr s1 \<Rightarrow> apply_loop table_of feed float_parse phs s1)"

definition apply_placeholders ::
  "(string \<Rightarrow> error + 'f TableModel) \<Rightarrow> (string \<Rightarrow> html_event list) \<Rightarrow> (string \<Rightarrow> 'f option) \<Rightarrow>
   'f DocumentModel \<Rightarrow> PlaceholderModel list \<Rightarrow> error + 'f DocumentModel"
where
  "apply_placeholders table_of feed float_parse doc placeholders =
     (if placeholders = [] then Inr doc
      else (case apply_loop table_of feed float_parse placeholders (build_element_index doc, []) of
              Inl e \<Rightarrow> Inl e
            | Inr (doc1, structural_ops) \<Rightarrow>
                (case apply_replacements structural_ops doc1 of
                   Inl e \<Rightarrow> Inl e
                 | Inr doc2 \<Rightarrow> Inr (invalidate_index doc2))))"

section \<open>Properties of slicing\<close>

text \<open>
  Claim C9, as stated, fails on a run with empty text: the guard \<open>start \<ge> stop\<close> of
  \<open>slice_run\<close> gives no result for the range \<open>[0, 0)\<close>.
\<close>

theorem slice_run_full_empty_counterexample:
  "slice_run (mk_run [] (Some (empty_attributes :: unit RunAttributes))) 0
     (int (length (run_text (mk_run [] (Some (empty_attributes :: unit RunAttributes)))))) = None"
  by (simp add: slice_run_def mk_run_def)

text \<open>
  Claim C9, amended: for every run \<open>r\<close> whose text is not empty,
  \<open>slice_run r 0 (len (text r))\<close> returns a run, with the text of \<open>r\<close> and the attributes
  of \<open>r\<close> (and the default type and no id); for every run whose text is empty it returns
  no result.
\<close>

theorem slice_run_full:
  "(run_text r \<noteq> [] \<longrightarrow>
      slice_run r 0 (int (length (run_text r))) = Some (mk_run (run_text r) (attributes r)))
   \<and> (run_text r = [] \<longrightarrow> slice_run r 0 (int (length (run_text r))) = None)"
  by (simp add: slice_run_def slice_def)

theorem slice_run_full_witness:
  "run_text (mk_run ''ab'' (Some (empty_attributes :: unit RunAttributes))) \<noteq> [] \<and>
   slice_run (mk_run ''ab'' (Some (empty_attributes :: unit RunAttributes))) 0
     (int (length (run_text (mk_run ''ab'' (Some (empty_attributes :: unit RunAttributes))))))
   = Some (mk_run ''ab'' (Some empty_attributes)) \<and>
   run_text (mk_run [] (None :: unit RunAttributes option)) = [] \<and>
   slice_run (mk_run [] (None :: unit RunAttributes option)) 0
     (int (length (run_text (mk_run [] (None :: unit RunAttributes option))))) = None"
  using slice_run_full [of "mk_run ''ab'' (Some (empty_attributes :: unit RunAttributes))"]
    slice_run_full [of "mk_run [] (None :: unit RunAttributes option)"]
  by (simp add: mk_run_def)

section \<open>Properties of the table classification\<close>

text \<open>The colspan of a slot of a row, where an empty slot counts as nothing.\<close>

lemma colspan_sum_two:
  "sum_list [colspan cell. Some cell \<leftarrow> slice r0 0 2] =
     (case r0 of
        [] \<Rightarrow> 0
      | [a] \<Rightarrow> (case a of None \<Rightarrow> 0 | Some x \<Rightarrow> colspan x)
      | a # b # _ \<Rightarrow> (case a of None \<Rightarrow> 0 | Some x \<Rightarrow> colspan x)
                     + (case b of None \<Rightarrow> 0 | Some y \<Rightarrow> colspan y))"
  by (auto simp: slice_def numeral_2_eq_2 split: list.splits option.splits)

text \<open>
  Claim C8: for a table with at least one row, \<open>get_type\<close> returns \<open>Layout\<close> when the first
  row has one slot; otherwise \<open>Keyvalue\<close> when the number of slots of the first row minus
  the sum of the colspans of those of its first two slots that hold a cell is \<open>0\<close>;
  otherwise \<open>Unknown\<close>. In particular a first row of two cells of colspan 1 gives
  \<open>Keyvalue\<close>.
\<close>

theorem get_type_classification:
  "rows t = r0 # rest \<Longrightarrow>
   get_type t =
     Inr (if length r0 = 1 then ''Layout''
          else if int (length r0) -
                  (case r0 of
                     [] \<Rightarrow> 0
                   | [a] \<Rightarrow> (case a of None \<Rightarrow> 0 | Some x \<Rightarrow> colspan x)
                   | a # b # _ \<Rightarrow> (case a of None \<Rightarrow> 0 | Some x \<Rightarrow> colspan x)
                                  + (case b of None \<Rightarrow> 0 | Some y \<Rightarrow> colspan y)) = 0
          then ''Keyvalue'' else ''Unknown'')
   \<and> (r0 = [Some c1, Some c2] \<and> colspan c1 = 1 \<and> colspan c2 = 1 \<longrightarrow>
        get_type t = Inr ''Keyvalue'')"
  unfolding get_type_def get_col_count_def colspan_sum_two
  by (auto simp: Let_def)

theorem get_type_classification_witness:
  "get_type \<lparr>rows = [[Some \<lparr>paragraphs = ([] :: unit ParagraphModel list), colspan = 1,
                              rowspan = 1, cell_type = ''TableCell'', cell_id = None\<rparr>,
                       Some \<lparr>paragraphs = [], colspan = 1, rowspan = 1,
                              cell_type = ''TableCell'', cell_id = None\<rparr>]],
             table_type = ''Table'', table_id = None, table_parent_ref_id = None,
             caption_ref_id = None\<rparr> = Inr ''Keyvalue''"
  using get_type_classification
    [of "\<lparr>rows = [[Some \<lparr>paragraphs = ([] :: unit ParagraphModel list), colspan = 1,
                              rowspan = 1, cell_type = ''TableCell'', cell_id = None\<rparr>,
                       Some \<lparr>paragraphs = [], colspan = 1, rowspan = 1,
                              cell_type = ''TableCell'', cell_id = None\<rparr>]],
             table_type = ''Table'', table_id = None, table_parent_ref_id = None,
             caption_ref_id = None\<rparr>"
        "[Some \<lparr>paragraphs = ([] :: unit ParagraphModel list), colspan = 1,
                              rowspan = 1, cell_type = ''TableCell'', cell_id = None\<rparr>,
                       Some \<lparr>paragraphs = [], colspan = 1, rowspan = 1,
                              cell_type = ''TableCell'', cell_id = None\<rparr>]" "[]"
        "\<lparr>paragraphs = ([] :: unit ParagraphModel list), colspan = 1,
                              rowspan = 1, cell_type = ''TableCell'', cell_id = None\<rparr>"
        "\<lparr>paragraphs = ([] :: unit ParagraphModel list), colspan = 1,
                              rowspan = 1, cell_type = ''TableCell'', cell_id = None\<rparr>"]
  by simp

section \<open>Properties of the window search\<close>

lemma str_find_ge: "str_find s t \<ge> -1"
  by (induction s) (auto simp: Let_def)

lemma str_find_sublist: "str_find s t \<noteq> -1 \<longleftrightarrow> sublist t s"
proof (induction s)
  case Nil
  then show ?case by auto
next
  case (Cons c s)
  have "str_find s t \<ge> -1" by (rule str_find_ge)
  then show ?case using Cons
    by (auto simp: Let_def sublist_Cons_right)
qed

lemma str_find_empty: "str_find s [] = 0"
  by (cases s) auto

lemma scan_starts_None:
  "scan_starts texts t w is = None \<longleftrightarrow> (\<forall>i \<in> set is. \<not> hit texts t i w)"
  by (induction "is") (auto simp: Let_def str_find_sublist hit_def)

lemma scan_starts_Some:
  "scan_starts texts t w is = Some win \<Longrightarrow>
   \<exists>pre post. is = pre @ start_run win # post \<and> (\<forall>j \<in> set pre. \<not> hit texts t j w)
     \<and> hit texts t (start_run win) w \<and> end_run win = start_run win + w
     \<and> merged_text win = concat (slice texts (start_run win) (start_run win + w))
     \<and> char_start win = str_find (merged_text win) t
     \<and> char_end win = char_start win + int (length t)"
proof (induction "is")
  case Nil
  then show ?case by simp
next
  case (Cons i "is")
  show ?case
  proof (cases "hit texts t i w")
    case True
    with Cons.prems have "win = \<lparr>start_run = i, end_run = i + w, char_start = str_find (concat (slice texts i (i + w))) t,
                      char_end = str_find (concat (slice texts i (i + w))) t + int (length t), merged_text = concat (slice texts i (i + w))\<rparr>"
      by (auto simp: Let_def str_find_sublist hit_def)
    with True show ?thesis by (intro exI[of _ "[]"] exI[of _ "is"]) auto
  next
    case False
    with Cons.prems have "scan_starts texts t w is = Some win"
      by (auto simp: Let_def str_find_sublist hit_def)
    from Cons.IH[OF this] obtain pre post where
      "is = pre @ start_run win # post" "(\<forall>j \<in> set pre. \<not> hit texts t j w)"
      "hit texts t (start_run win) w" "end_run win = start_run win + w"
      "merged_text win = concat (slice texts (start_run win) (start_run win + w))"
      "char_start win = str_find (merged_text win) t"
      "char_end win = char_start win + int (length t)" by blast
    with False show ?thesis
      by (intro exI[of _ "i # pre"] exI[of _ post]) auto
  qed
qed


lemma scan_widths_None:
  "scan_widths texts t n ws = None \<longleftrightarrow>
     (\<forall>w \<in> set ws. \<forall>i < n - w + 1. \<not> hit texts t i w)"
proof (induction ws)
  case Nil
  then show ?case by simp
next
  case (Cons w ws)
  have "scan_starts texts t w [0..<n - w + 1] = None \<longleftrightarrow> (\<forall>i < n - w + 1. \<not> hit texts t i w)"
    unfolding scan_starts_None by (auto simp del: upt_Suc)
  then show ?case using Cons by (auto split: option.splits simp del: upt_Suc)
qed

lemma scan_widths_Some:
  "scan_widths texts t n ws = Some win \<Longrightarrow>
   \<exists>pre w post. ws = pre @ w # post
     \<and> (\<forall>v \<in> set pre. \<forall>i < n - v + 1. \<not> hit texts t i v)
     \<and> scan_starts texts t w [0..<n - w + 1] = Some win"
proof (induction ws)
  case Nil
  then show ?case by simp
next
  case (Cons w ws)
  show ?case
  proof (cases "scan_starts texts t w [0..<n - w + 1]")
    case None
    with Cons.prems have "scan_widths texts t n ws = Some win" by simp
    from Cons.IH[OF this] obtain pre v post where
      "ws = pre @ v # post" "\<forall>v \<in> set pre. \<forall>i < n - v + 1. \<not> hit texts t i v"
      "scan_starts texts t v [0..<n - v + 1] = Some win" by blast
    moreover have "\<forall>i < n - w + 1. \<not> hit texts t i w"
      using None unfolding scan_starts_None by (auto simp del: upt_Suc)
    ultimately show ?thesis
      by (intro exI[of _ "w # pre"] exI[of _ v] exI[of _ post]) (simp del: upt_Suc)
  next
    case (Some a)
    with Cons.prems have "a = win" by simp
    with Some show ?thesis
      by (intro exI[of _ "[]"] exI[of _ w] exI[of _ ws]) auto
  qed
qed

lemma upt_split_less:
  "[a..<b] = pre @ x # post \<Longrightarrow> set pre = {a..<x} \<and> a \<le> x \<and> x < b"
proof -
  assume h: "[a..<b] = pre @ x # post"
  have s: "sorted_wrt (<) (pre @ x # post)" using h sorted_wrt_upt by metis
  have x: "x \<in> set [a..<b]" using h by simp
  have "set pre \<subseteq> {a..<x}"
  proof
    fix y assume y: "y \<in> set pre"
    then have "y < x" using s by (auto simp: sorted_wrt_append)
    moreover have "y \<in> set [a..<b]" using h y by simp
    ultimately show "y \<in> {a..<x}" by simp
  qed
  moreover have "{a..<x} \<subseteq> set pre"
  proof
    fix y assume y: "y \<in> {a..<x}"
    then have "y \<in> set [a..<b]" using x by simp
    then have "y \<in> set (pre @ x # post)" using h by simp
    then have "y \<in> set pre \<or> y = x \<or> y \<in> set post" by auto
    moreover have "y \<noteq> x" using y by simp
    moreover have "y \<notin> set post" using s y by (auto simp: sorted_wrt_append)
    ultimately show "y \<in> set pre" by blast
  qed
  ultimately show ?thesis using x by auto
qed


lemma slice_map: "map f (slice xs i j) = slice (map f xs) i j"
  by (simp add: slice_def take_map drop_map)

text \<open>
  Claim C2: for a non-empty target \<open>t\<close>, \<open>find_run_window\<close> returns no window only when
  no contiguous sub-sequence of the runs has a concatenation that contains \<open>t\<close>; and a
  window it returns is non-empty, lies within the runs, contains \<open>t\<close>, is no wider than
  any sub-sequence that contains \<open>t\<close>, and starts no later than any such sub-sequence
  of the same width.
\<close>

theorem find_run_window_minimal:
  assumes "t \<noteq> []"
  shows "case find_run_window rs t of
     None \<Rightarrow> (\<forall>i w. i + w \<le> length rs \<longrightarrow>
                 \<not> sublist t (concat (map run_text (slice rs i (i + w)))))
   | Some win \<Rightarrow>
       start_run win < end_run win \<and> end_run win \<le> length rs
       \<and> sublist t (concat (map run_text (slice rs (start_run win) (end_run win))))
       \<and> (\<forall>i w. i + w \<le> length rs
                 \<and> sublist t (concat (map run_text (slice rs i (i + w))))
             \<longrightarrow> end_run win - start_run win \<le> w
                 \<and> (w = end_run win - start_run win \<longrightarrow> start_run win \<le> i))"
proof -
  define texts where "texts = map run_text rs"
  define n where "n = length rs"
  have fw: "find_run_window rs t = scan_widths texts t n [1..<n + 1]"
    by (simp add: find_run_window_def texts_def n_def Let_def)
  have hit_eq: "\<And>i w. sublist t (concat (map run_text (slice rs i (i + w)))) = hit texts t i w"
    by (simp add: hit_def texts_def slice_map)
  have hit0: "\<And>i. \<not> hit texts t i 0"
    using assms by (simp add: hit_def slice_def)
  show ?thesis
  proof (cases "find_run_window rs t")
    case None
    then have no: "\<forall>w \<in> set [1..<n + 1]. \<forall>i < n - w + 1. \<not> hit texts t i w"
      using fw scan_widths_None by metis
    have "\<not> hit texts t i w" if "i + w \<le> n" for i w
    proof (cases "w = 0")
      case True
      then show ?thesis using hit0 by simp
    next
      case False
      then have "w \<in> set [1..<n + 1]" "i < n - w + 1" using that by auto
      then show ?thesis using no by blast
    qed
    then show ?thesis using None by (simp add: hit_eq n_def)
  next
    case (Some win)
    then have "scan_widths texts t n [1..<n + 1] = Some win" using fw by simp
    from scan_widths_Some[OF this] obtain pre w post where
      ws: "[1..<n + 1] = pre @ w # post"
      and nopre: "\<forall>v \<in> set pre. \<forall>i < n - v + 1. \<not> hit texts t i v"
      and ss: "scan_starts texts t w [0..<n - w + 1] = Some win" by blast
    from upt_split_less[OF ws] have pre: "set pre = {1..<w}" and w: "1 \<le> w" "w < n + 1" by auto
    from scan_starts_Some[OF ss] obtain pre2 post2 where
      st: "[0..<n - w + 1] = pre2 @ start_run win # post2"
      and nopre2: "\<forall>j \<in> set pre2. \<not> hit texts t j w"
      and h: "hit texts t (start_run win) w"
      and e: "end_run win = start_run win + w" by blast
    from upt_split_less[OF st] have pre2: "set pre2 = {0..<start_run win}"
      and s: "start_run win < n - w + 1" by auto
    have a: "start_run win < end_run win" using e w by simp
    have b: "end_run win \<le> length rs" using e s w by (simp add: n_def)
    have c: "sublist t (concat (map run_text (slice rs (start_run win) (end_run win))))"
      using h e by (simp add: hit_eq)
    have d: "end_run win - start_run win \<le> v \<and> (v = end_run win - start_run win \<longrightarrow> start_run win \<le> i)"
      if iv: "i + v \<le> length rs" and hv: "hit texts t i v" for i v
    proof -
      have v0: "v \<noteq> 0"
      proof
        assume "v = 0"
        then show False using hv hit0[of i] by simp
      qed
      have "\<not> v < w"
      proof
        assume "v < w"
        then have "v \<in> set pre" using pre v0 by auto
        moreover have "i < n - v + 1" using iv by (simp add: n_def)
        ultimately show False using nopre hv by blast
      qed
      moreover have "start_run win \<le> i" if "v = w"
      proof (rule ccontr)
        assume "\<not> start_run win \<le> i"
        then have "i \<in> set pre2" using pre2 by auto
        then show False using nopre2 hv that by blast
      qed
      ultimately show ?thesis using e by auto
    qed
    show ?thesis using Some a b c d by (simp add: hit_eq) blast
  qed
qed

theorem find_run_window_minimal_witness:
  "''bc'' \<noteq> [] \<and>
   find_run_window
       [mk_run ''ab'' (Some (empty_attributes :: unit RunAttributes)),
        mk_run ''cd'' (Some empty_attributes), mk_run ''bc'' (Some empty_attributes)] ''bc''
     = Some \<lparr>start_run = 2, end_run = 3, char_start = 0, char_end = 2, merged_text = ''bc''\<rparr>
   \<and> sublist ''bc'' (concat (map run_text (slice
       [mk_run ''ab'' (Some (empty_attributes :: unit RunAttributes)),
        mk_run ''cd'' (Some empty_attributes), mk_run ''bc'' (Some empty_attributes)] 2 3)))"
proof -
  have ev: "find_run_window
       [mk_run ''ab'' (Some (empty_attributes :: unit RunAttributes)),
        mk_run ''cd'' (Some empty_attributes), mk_run ''bc'' (Some empty_attributes)] ''bc''
     = Some \<lparr>start_run = 2, end_run = 3, char_start = 0, char_end = 2, merged_text = ''bc''\<rparr>"
    by code_simp
  show ?thesis
    using find_run_window_minimal [of "''bc''" "[mk_run ''ab'' (Some (empty_attributes :: unit RunAttributes)),
        mk_run ''cd'' (Some empty_attributes), mk_run ''bc'' (Some empty_attributes)]"]
    unfolding ev by simp
qed

section \<open>Properties of the HTML rendering\<close>

text \<open>
  Claim C6, as stated, nests \<open><sup>\<close> innermost and \<open><strong>\<close> outermost. The code wraps
  in the opposite order: a bold superscript run renders with \<open><strong>\<close> inside \<open><sup>\<close>.
\<close>

theorem to_html_order_counterexample:
  "to_html (\<lambda>_. True) (\<lambda>_. [])
     (mk_run ''x'' (Some ((empty_attributes :: unit RunAttributes)\<lparr>bold := Some True, superscript := Some True\<rparr>)))
   = ''<span><sup><strong>x</strong></sup></span>''
   \<and> to_html (\<lambda>_. True) (\<lambda>_. [])
     (mk_run ''x'' (Some ((empty_attributes :: unit RunAttributes)\<lparr>bold := Some True, superscript := Some True\<rparr>)))
   \<noteq> ''<span><strong><sup>x</sup></strong></span>''"
  by (simp add: to_html_def mk_run_def attrs_or_default_def empty_attributes_def flag_def style_attr_def css_styles_def
        attr_str_def html_attrs_def str_truthy_def list_truthy_def escape_def escape_char_def)

text \<open>
  Claim C6, amended: for a run with non-empty text, \<open>to_html\<close> wraps the escaped text
  innermost-first in \<open><strong>\<close>, then \<open><em>\<close>, then \<open><sub>\<close>, then \<open><sup>\<close> (for each
  flag that is set), and last in one \<open><span>\<close> that carries the style and the other
  attributes: \<open><sup>\<close> is the outermost of the four tags and \<open><strong>\<close> the innermost.
  The attributes of a run that has none are the default ones.
\<close>

theorem to_html_nesting:
  "run_text r \<noteq> [] \<Longrightarrow>
   to_html float_truthy float_str r =
     ''<span'' @ style_attr float_truthy float_str (attrs_or_default r) @ attr_str (attrs_or_default r) @ ''>''
     @ (if flag (superscript (attrs_or_default r)) then ''<sup>'' else [])
     @ (if flag (subscript (attrs_or_default r)) then ''<sub>'' else [])
     @ (if flag (italic (attrs_or_default r)) then ''<em>'' else [])
     @ (if flag (bold (attrs_or_default r)) then ''<strong>'' else [])
     @ escape (run_text r)
     @ (if flag (bold (attrs_or_default r)) then ''</strong>'' else [])
     @ (if flag (italic (attrs_or_default r)) then ''</em>'' else [])
     @ (if flag (subscript (attrs_or_default r)) then ''</sub>'' else [])
     @ (if flag (superscript (attrs_or_default r)) then ''</sup>'' else [])
     @ ''</span>''"
  by (simp add: to_html_def Let_def)

theorem to_html_nesting_witness:
  "run_text (mk_run ''a<b'' (Some ((empty_attributes :: unit RunAttributes)
       \<lparr>bold := Some True, italic := Some True, subscript := Some True, superscript := Some True,
        tracked_change := Some ''ins''\<rparr>))) \<noteq> []
   \<and> to_html (\<lambda>_. True) (\<lambda>_. [])
     (mk_run ''a<b'' (Some ((empty_attributes :: unit RunAttributes)
       \<lparr>bold := Some True, italic := Some True, subscript := Some True, superscript := Some True,
        tracked_change := Some ''ins''\<rparr>)))
   = ''<span data-track='' @ [CHR 0x22] @ ''ins'' @ [CHR 0x22] @
     ''><sup><sub><em><strong>a&lt;b</strong></em></sub></sup></span>''"
  using to_html_nesting [of "mk_run ''a<b'' (Some ((empty_attributes :: unit RunAttributes)
       \<lparr>bold := Some True, italic := Some True, subscript := Some True, superscript := Some True,
        tracked_change := Some ''ins''\<rparr>))" "\<lambda>_. True" "\<lambda>_. []"]
  by (simp add: mk_run_def attrs_or_default_def empty_attributes_def flag_def style_attr_def css_styles_def
        attr_str_def html_attrs_def str_truthy_def list_truthy_def escape_def escape_char_def)

section \<open>Properties of replacing and dropping text\<close>

lemma frags_from_index:
  "frags_from rs cs ce offset =
     map (\<lambda>k. let r = rs ! k; off = offset + window_offset rs k
              in split_run r (max 0 (cs - off)) (min (int (length (run_text r))) (ce - off)))
         [0..<length rs]"
proof (induction rs arbitrary: offset)
  case Nil
  then show ?case by simp
next
  case (Cons r rs)
  have "[0..<length (r # rs)] = 0 # map Suc [0..<length rs]"
    by (simp add: upt_conv_Cons map_Suc_upt del: upt_Suc)
  then show ?case
    by (simp add: Cons.IH window_offset_def Let_def comp_def add.assoc del: upt_Suc)
qed

lemma fragments_frags_from: "fragments merged cs ce = frags_from merged cs ce 0"
  by (simp add: fragments_def frags_from_index)

lemma set_tracked_change_Some:
  "attributes r \<noteq> None \<Longrightarrow> set_tracked_change mark r = Inr (tracked mark r)"
  by (auto simp: set_tracked_change_def tracked_def)

lemma set_tracked_change_None:
  "attributes r = None \<Longrightarrow> set_tracked_change mark r = Inl AttributeError"
  by (simp add: set_tracked_change_def)

lemma replace_parts_frags:
  "(\<forall>f \<in> set (frags_from rs cs ce offset). \<forall>m. frag_middle f = Some m \<longrightarrow> attributes m \<noteq> None) \<Longrightarrow>
   replace_parts rs cs ce offset (bp, dp, ap) =
     Inr (bp @ List.map_filter frag_before (frags_from rs cs ce offset),
          dp @ map (tracked ''del'') (List.map_filter frag_middle (frags_from rs cs ce offset)),
          ap @ List.map_filter frag_after (frags_from rs cs ce offset))"
proof (induction rs arbitrary: offset bp dp ap)
  case Nil
  then show ?case by simp
next
  case (Cons r rs)
  obtain b m a where sp:
    "split_run r (max 0 (cs - offset)) (min (int (length (run_text r))) (ce - offset)) = (b, m, a)"
    by (cases "split_run r (max 0 (cs - offset)) (min (int (length (run_text r))) (ce - offset))") auto
  from Cons.prems have rest:
    "\<forall>f \<in> set (frags_from rs cs ce (offset + int (length (run_text r)))).
        \<forall>m. frag_middle f = Some m \<longrightarrow> attributes m \<noteq> None"
    by simp
  from Cons.prems sp have m: "\<And>x. m = Some x \<Longrightarrow> mark_del x = Inr (tracked ''del'' x)"
    by (simp add: frag_middle_def mark_del_def set_tracked_change_Some)
  note ih = Cons.IH[OF rest]
  show ?case
    by (cases b; cases m; cases a)
       (simp_all add: sp ih m Let_def frag_before_def frag_middle_def frag_after_def)
qed

lemma replace_parts_error:
  "(\<exists>f \<in> set (frags_from rs cs ce offset). \<exists>m. frag_middle f = Some m \<and> attributes m = None) \<Longrightarrow>
   replace_parts rs cs ce offset (bp, dp, ap) = Inl AttributeError"
proof (induction rs arbitrary: offset bp dp ap)
  case Nil
  then show ?case by simp
next
  case (Cons r rs)
  obtain b m a where sp:
    "split_run r (max 0 (cs - offset)) (min (int (length (run_text r))) (ce - offset)) = (b, m, a)"
    by (cases "split_run r (max 0 (cs - offset)) (min (int (length (run_text r))) (ce - offset))") auto
  show ?case
  proof (cases "\<exists>x. m = Some x \<and> attributes x = None")
    case True
    then obtain x where "m = Some x" "attributes x = None" by blast
    then show ?thesis
      by (simp add: sp Let_def mark_del_def set_tracked_change_None)
  next
    case False
    with Cons.prems sp have rest:
      "\<exists>f \<in> set (frags_from rs cs ce (offset + int (length (run_text r)))).
          \<exists>m. frag_middle f = Some m \<and> attributes m = None"
      by (auto simp: frag_middle_def)
    from False have m: "\<And>x. m = Some x \<Longrightarrow> mark_del x = Inr (tracked ''del'' x)"
      by (auto simp: mark_del_def set_tracked_change_Some)
    note ih = Cons.IH[OF rest]
    show ?thesis
      by (cases m) (simp_all add: sp ih m Let_def)
  qed
qed

lemma drop_parts_frags:
  "drop_parts rs cs ce offset out =
     out @ concat (map (\<lambda>f. (case frag_before f of Some b \<Rightarrow> [b] | None \<Rightarrow> [])
                            @ (case frag_after f of Some a \<Rightarrow> [a] | None \<Rightarrow> []))
                       (frags_from rs cs ce offset))"
proof (induction rs arbitrary: offset out)
  case Nil
  then show ?case by simp
next
  case (Cons r rs)
  obtain b m a where sp:
    "split_run r (max 0 (cs - offset)) (min (int (length (run_text r))) (ce - offset)) = (b, m, a)"
    by (cases "split_run r (max 0 (cs - offset)) (min (int (length (run_text r))) (ce - offset))") auto
  show ?case
    by (cases b; cases a)
       (simp_all add: sp Cons.IH Let_def frag_before_def frag_after_def)
qed

lemma mark_inserted_False:
  "(\<forall>r \<in> set rs. attributes r \<noteq> None) \<Longrightarrow>
   mark_inserted rs comment False = Inr (map (tracked ''ins'') rs)"
  by (induction rs) (simp_all add: mark_ins_def set_tracked_change_Some)

lemma mark_inserted_no_comment:
  "\<not> str_truthy comment \<Longrightarrow> (\<forall>r \<in> set rs. attributes r \<noteq> None) \<Longrightarrow>
   mark_inserted rs comment b = Inr (map (tracked ''ins'') rs)"
  by (induction rs) (simp_all add: mark_ins_def set_tracked_change_Some)

lemma mark_inserted_insertion_runs:
  "(\<forall>r \<in> set inserted. attributes r \<noteq> None) \<Longrightarrow>
   mark_inserted inserted comment True = Inr (insertion_runs inserted comment)"
  by (cases inserted)
     (simp_all add: insertion_runs_def mark_inserted_False mark_inserted_no_comment
        mark_ins_def set_tracked_change_Some)

text \<open>The runs that the parser builds have attributes.\<close>

lemma handle_events_attributes:
  "handle_events float_parse evs st = Inr st1 \<Longrightarrow> (\<forall>r \<in> set (p_runs st). attributes r \<noteq> None) \<Longrightarrow>
   (\<forall>r \<in> set (p_runs st1). attributes r \<noteq> None)"
proof (induction evs arbitrary: st)
  case Nil
  then show ?case by simp
next
  case (Cons ev evs)
  from Cons.prems(1) obtain s where
    step: "(case ev of
              StartTag tag attrs \<Rightarrow> handle_starttag float_parse tag attrs st
            | EndTag tag \<Rightarrow> Inr (handle_endtag tag st)
            | Data d \<Rightarrow> handle_data d st) = Inr s"
    and rest: "handle_events float_parse evs s = Inr st1"
    by (auto split: sum.splits)
  have "\<forall>r \<in> set (p_runs s). attributes r \<noteq> None"
  proof (cases ev)
    case (StartTag tag attrs)
    with step have "p_runs s = p_runs st"
      by (auto simp: handle_starttag_def Let_def split: if_splits sum.splits)
    with Cons.prems(2) show ?thesis by simp
  next
    case (EndTag tag)
    with step have "p_runs s = p_runs st"
      by (auto simp: handle_endtag_def split: if_splits)
    with Cons.prems(2) show ?thesis by simp
  next
    case (Data d)
    with step have "p_runs s = p_runs st \<or> (\<exists>a. p_runs s = p_runs st @ [mk_run d (Some a)])"
      by (auto simp: handle_data_def split: if_splits)
    with Cons.prems(2) show ?thesis by (auto simp: mk_run_def)
  qed
  from Cons.IH[OF rest this] show ?case .
qed

lemma from_html_attributes:
  "from_html feed float_parse html = Inr inserted \<Longrightarrow> \<forall>r \<in> set inserted. attributes r \<noteq> None"
proof -
  assume "from_html feed float_parse html = Inr inserted"
  then obtain st where
    "handle_events float_parse (feed html) \<lparr>p_runs = [], p_stack = [empty_attributes]\<rparr> = Inr st"
    "inserted = p_runs st"
    by (auto simp: from_html_def split: sum.splits)
  with handle_events_attributes[of float_parse "feed html" _ st] show ?thesis by simp
qed

lemma slice_run_nonempty: "slice_run r a b = Some x \<Longrightarrow> run_text x \<noteq> []"
  by (auto simp: slice_run_def mk_run_def slice_def split: if_splits)

lemma replace_text_not_found:
  "find_run_window rs t = None \<Longrightarrow> replace_text feed float_parse rs t html comment = Inr rs"
  by (simp add: replace_text_def)

lemma replace_text_found:
  assumes "find_run_window rs t = Some win"
    and "\<forall>f \<in> set (fragments (slice rs (start_run win) (end_run win)) (char_start win) (char_end win)). \<forall>m. frag_middle f = Some m \<longrightarrow> attributes m \<noteq> None"
    and "from_html feed float_parse html = Inr inserted"
  shows "replace_text feed float_parse rs t html comment =
      Inr (take (start_run win) rs
           @ List.map_filter frag_before (fragments (slice rs (start_run win) (end_run win)) (char_start win) (char_end win))
           @ map (tracked ''del'') (List.map_filter frag_middle (fragments (slice rs (start_run win) (end_run win)) (char_start win) (char_end win)))
           @ insertion_runs inserted comment
           @ List.map_filter frag_after (fragments (slice rs (start_run win) (end_run win)) (char_start win) (char_end win))
           @ drop (end_run win) rs)"
proof -
  have p: "replace_parts (slice rs (start_run win) (end_run win)) (char_start win) (char_end win) 0
             ([], [], []) =
           Inr (List.map_filter frag_before (fragments (slice rs (start_run win) (end_run win)) (char_start win) (char_end win)),
                map (tracked ''del'') (List.map_filter frag_middle (fragments (slice rs (start_run win) (end_run win)) (char_start win) (char_end win))),
                List.map_filter frag_after (fragments (slice rs (start_run win) (end_run win)) (char_start win) (char_end win)))"
    using replace_parts_frags[of "slice rs (start_run win) (end_run win)" "char_start win"
            "char_end win" 0 "[]" "[]" "[]"] assms(2)
    by (simp add: fragments_frags_from)
  show ?thesis
    using assms(1,3) p mark_inserted_insertion_runs[OF from_html_attributes[OF assms(3)]]
    by (simp add: replace_text_def Let_def)
qed

lemma replace_text_html_error:
  assumes "find_run_window rs t = Some win"
    and "\<forall>f \<in> set (fragments (slice rs (start_run win) (end_run win)) (char_start win) (char_end win)). \<forall>m. frag_middle f = Some m \<longrightarrow> attributes m \<noteq> None"
    and "from_html feed float_parse html = Inl e"
  shows "replace_text feed float_parse rs t html comment = Inl e"
proof -
  have "\<exists>x. replace_parts (slice rs (start_run win) (end_run win)) (char_start win) (char_end win) 0
             ([], [], []) = Inr x"
    using replace_parts_frags[of "slice rs (start_run win) (end_run win)" "char_start win"
            "char_end win" 0 "[]" "[]" "[]"] assms(2)
    by (simp add: fragments_frags_from)
  then show ?thesis
    using assms(1,3) by (auto simp: replace_text_def Let_def)
qed

lemma replace_text_attribute_error:
  assumes "find_run_window rs t = Some win"
    and "\<exists>f \<in> set (fragments (slice rs (start_run win) (end_run win)) (char_start win) (char_end win)). \<exists>m. frag_middle f = Some m \<and> attributes m = None"
  shows "replace_text feed float_parse rs t html comment = Inl AttributeError"
proof -
  have "replace_parts (slice rs (start_run win) (end_run win)) (char_start win) (char_end win) 0
             ([], [], []) = Inl AttributeError"
    using replace_parts_error[of "slice rs (start_run win) (end_run win)" "char_start win"
            "char_end win" 0 "[]" "[]" "[]"] assms(2)
    by (simp add: fragments_frags_from)
  then show ?thesis
    using assms(1) by (simp add: replace_text_def Let_def)
qed

text \<open>
  What \<open>replace_text\<close> does: when \<open>find_run_window\<close> finds no window it returns its input.
  When it finds one, the middle fragments of the runs of the window all have attributes
  and the replacement parses, the result is, in order: the runs before the window, the
  before fragments of the runs of the window, their middle fragments marked as deletions,
  the parsed runs marked as insertions (the comment, when it is a non-empty string, on
  the first of them only), the after fragments, and the runs after the window. When a
  middle fragment has no attributes the result is \<^verbatim>\<open>AttributeError\<close>; when the replacement
  does not parse, the error of the parser.
\<close>

lemma replace_text_contract:
  "(find_run_window rs t = None \<longrightarrow> replace_text feed float_parse rs t html comment = Inr rs)
   \<and> (find_run_window rs t = Some win
        \<and> (\<forall>f \<in> set (fragments (slice rs (start_run win) (end_run win)) (char_start win) (char_end win)). \<forall>m. frag_middle f = Some m \<longrightarrow> attributes m \<noteq> None)
        \<and> from_html feed float_parse html = Inr inserted \<longrightarrow>
        replace_text feed float_parse rs t html comment =
          Inr (take (start_run win) rs
               @ List.map_filter frag_before (fragments (slice rs (start_run win) (end_run win)) (char_start win) (char_end win))
               @ map (tracked ''del'') (List.map_filter frag_middle (fragments (slice rs (start_run win) (end_run win)) (char_start win) (char_end win)))
               @ insertion_runs inserted comment
               @ List.map_filter frag_after (fragments (slice rs (start_run win) (end_run win)) (char_start win) (char_end win))
               @ drop (end_run win) rs))
   \<and> (find_run_window rs t = Some win
        \<and> (\<forall>f \<in> set (fragments (slice rs (start_run win) (end_run win)) (char_start win) (char_end win)). \<forall>m. frag_middle f = Some m \<longrightarrow> attributes m \<noteq> None)
        \<and> from_html feed float_parse html = Inl e \<longrightarrow>
        replace_text feed float_parse rs t html comment = Inl e)
   \<and> (find_run_window rs t = Some win
        \<and> (\<exists>f \<in> set (fragments (slice rs (start_run win) (end_run win)) (char_start win) (char_end win)). \<exists>m. frag_middle f = Some m \<and> attributes m = None) \<longrightarrow>
        replace_text feed float_parse rs t html comment = Inl AttributeError)"
  using replace_text_not_found[of rs t feed float_parse html comment]
    replace_text_found[of rs t win feed float_parse html inserted comment]
    replace_text_html_error[of rs t win feed float_parse html e comment]
    replace_text_attribute_error[of rs t win feed float_parse html comment]
  by blast

text \<open>
  Claim C1 at a run without attributes, which \<^verbatim>\<open>RunModel.from_dict\<close> builds from an input
  whose attributes are null: for the single run \<open>Hello World\<close>, the target \<open>Hello\<close> and the
  replacement \<open><strong>Hi</strong>\<close>, \<open>replace_text\<close> finds the window and raises
  \<^verbatim>\<open>AttributeError\<close> when it marks the middle fragment as a deletion, where the claim has
  the three runs that the same call returns for the run with default attributes.
  \<open>to_html\<close> and \<open>get_color\<close> guard the same run.
\<close>

theorem replace_text_none_attributes:
  "find_run_window [mk_run ''Hello World'' (None :: unit RunAttributes option)] ''Hello''
     = Some \<lparr>start_run = 0, end_run = 1, char_start = 0, char_end = 5,
              merged_text = ''Hello World''\<rparr>
   \<and> replace_text (\<lambda>h. [StartTag ''strong'' [], Data ''Hi'', EndTag ''strong'']) (\<lambda>s. None)
       [mk_run ''Hello World'' (None :: unit RunAttributes option)] ''Hello''
       ''<strong>Hi</strong>'' None
     = Inl AttributeError
   \<and> replace_text (\<lambda>h. [StartTag ''strong'' [], Data ''Hi'', EndTag ''strong'']) (\<lambda>s. None)
       [mk_run ''Hello World'' (Some (empty_attributes :: unit RunAttributes))] ''Hello''
       ''<strong>Hi</strong>'' None
     = Inr [mk_run ''Hello'' (Some (empty_attributes\<lparr>tracked_change := Some ''del''\<rparr>)),
            mk_run ''Hi'' (Some (empty_attributes\<lparr>bold := Some True, tracked_change := Some ''ins''\<rparr>)),
            mk_run '' World'' (Some empty_attributes)]
   \<and> to_html (\<lambda>f. True) (\<lambda>f. []) (mk_run ''Hello World'' (None :: unit RunAttributes option))
     = ''<span>Hello World</span>''
   \<and> get_color (\<lambda>s. s) (mk_run ''Hello World'' (None :: unit RunAttributes option)) = None"
  by code_simp

lemma find_run_window_empty_target:
  "find_run_window (r # rest) [] =
     Some \<lparr>start_run = 0, end_run = 1, char_start = 0, char_end = 0, merged_text = run_text r\<rparr>"
proof -
  have a: "[1..<length (r # rest) + 1] = 1 # [Suc 1..<length (r # rest) + 1]"
    by (rule upt_conv_Cons) simp
  have b: "[0..<Suc (length rest)] = 0 # [Suc 0..<Suc (length rest)]"
    by (rule upt_conv_Cons) simp
  show ?thesis
    unfolding find_run_window_def Let_def a
    by (simp add: b slice_def str_find_empty del: upt_Suc)
qed

lemma split_run_0_0:
  "split_run r 0 0 = (None, None, if run_text r = [] then None else Some (mk_run (run_text r) (attributes r)))"
  by (simp add: split_run_def slice_run_def slice_def)

text \<open>
  Claim C10: for a non-empty list of runs and the empty target, \<open>find_run_window\<close> returns
  the window of width 1 at run 0 with the character range \<open>[0, 0)\<close>. So \<open>replace_text\<close>
  puts the inserted runs in front of the first run, and \<open>drop_text\<close> rebuilds the first run
  from its after fragment: both drop a first run with empty text and the id of the first
  run, and \<open>drop_text\<close> returns a list equal to its input exactly when the first run has
  text, the default type and no id.
\<close>

theorem empty_target_found:
  "find_run_window (r # rest) [] =
     Some \<lparr>start_run = 0, end_run = 1, char_start = 0, char_end = 0, merged_text = run_text r\<rparr>
   \<and> replace_text feed float_parse (r # rest) [] html comment =
       (case from_html feed float_parse html of
          Inl e \<Rightarrow> Inl e
        | Inr inserted \<Rightarrow>
            Inr (insertion_runs inserted comment
                 @ (if run_text r = [] then [] else [mk_run (run_text r) (attributes r)])
                 @ rest))
   \<and> drop_text (r # rest) [] =
       (if run_text r = [] then [] else [mk_run (run_text r) (attributes r)]) @ rest
   \<and> (drop_text (r # rest) [] = r # rest) =
       (run_text r \<noteq> [] \<and> run_type r = ''Run'' \<and> run_id r = None)"
proof -
  have d: "drop_text (r # rest) [] =
       (if run_text r = [] then [] else [mk_run (run_text r) (attributes r)]) @ rest"
    by (simp add: drop_text_def find_run_window_empty_target Let_def slice_def split_run_0_0)
  have rp: "replace_text feed float_parse (r # rest) [] html comment =
       (case from_html feed float_parse html of
          Inl e \<Rightarrow> Inl e
        | Inr inserted \<Rightarrow>
            Inr (insertion_runs inserted comment
                 @ (if run_text r = [] then [] else [mk_run (run_text r) (attributes r)])
                 @ rest))"
  proof (cases "from_html feed float_parse html")
    case (Inl e)
    then show ?thesis
      by (simp add: replace_text_def find_run_window_empty_target Let_def slice_def split_run_0_0)
  next
    case (Inr inserted)
    from mark_inserted_insertion_runs[OF from_html_attributes[OF Inr]] Inr show ?thesis
      by (simp add: replace_text_def find_run_window_empty_target Let_def slice_def split_run_0_0)
  qed
  have e: "(drop_text (r # rest) [] = r # rest) =
       (run_text r \<noteq> [] \<and> run_type r = ''Run'' \<and> run_id r = None)"
  proof (cases "run_text r = []")
    case True
    have "length (drop_text (r # rest) []) \<noteq> length (r # rest)" using True d by simp
    then have "drop_text (r # rest) [] \<noteq> r # rest" by metis
    then show ?thesis using True by simp
  next
    case False
    have "(mk_run (run_text r) (attributes r) = r) = (run_type r = ''Run'' \<and> run_id r = None)"
      by (cases r) (auto simp: mk_run_def)
    then show ?thesis using False d by simp
  qed
  show ?thesis using find_run_window_empty_target d rp e by blast
qed

section \<open>Properties of the intent classification\<close>

lemma sqrt_100: "sqrt 100 = 10"
  using real_sqrt_abs[of 10] by simp

lemma sqrt_3600: "sqrt 3600 = 60"
  using real_sqrt_abs[of 60] by simp

lemma color_distance_gt_10: "(color_distance a b > 10) = (dist_sq a b > 100)"
proof -
  have "(sqrt 100 < sqrt (real_of_int (dist_sq a b))) = (100 < real_of_int (dist_sq a b))"
    by (rule real_sqrt_less_iff)
  then show ?thesis unfolding color_distance_def sqrt_100 by simp
qed

lemma color_distance_lt_60: "(color_distance a b < COLOR_THRESHOLD) = (dist_sq a b < 3600)"
proof -
  have "(sqrt (real_of_int (dist_sq a b)) < sqrt 3600) = (real_of_int (dist_sq a b) < 3600)"
    by (rule real_sqrt_less_iff)
  then show ?thesis unfolding color_distance_def COLOR_THRESHOLD_def sqrt_3600 by simp
qed

lemma hex_not_hash: "is_hex_digit c \<Longrightarrow> c \<noteq> CHR ''#''"
  by (auto simp: is_hex_digit_def)

lemma int16_hex: "is_hex_digit a \<Longrightarrow> is_hex_digit b \<Longrightarrow> int16 [a, b] = Some (16 * hex_value a + hex_value b)"
  by (simp add: int16_def)

text \<open>
  The white space of \<^verbatim>\<open>int\<close>: a file separator before a digit is not skipped, a
  no-break space is.
\<close>

lemma int16_white_space:
  "int16 [CHR 0x1C, CHR ''F''] = None \<and> int16 [CHR 0xA0, CHR ''F''] = Some 15
   \<and> int16 [CHR ''F'', CHR 0x85] = Some 15 \<and> int16 [CHR ''-'', CHR ''F''] = Some (- 15)"
  by (simp add: int16_def is_hex_digit_def is_int_space_def hex_value_def)

lemma hex_to_rgb_hex6:
  assumes "is_hex6 c"
  shows "hex_to_rgb c = Inr (Some (rgb_of c))"
proof -
  from assms have len: "length c = 6" and hx: "list_all is_hex_digit c"
    by (auto simp: is_hex6_def)
  from len obtain a1 a2 a3 a4 a5 a6 where c: "c = [a1, a2, a3, a4, a5, a6]"
    by (auto simp: length_Suc_conv eval_nat_numeral)
  have f: "filter (\<lambda>x. x \<noteq> CHR ''#'') c = c"
    using hx by (auto simp: filter_id_conv list_all_iff dest: hex_not_hash)
  show ?thesis
    unfolding hex_to_rgb_def f Let_def
    using hx by (simp add: c slice_def int16_hex rgb_of_def)
qed

lemma is_hex6_nonempty: "is_hex6 c \<Longrightarrow> c \<noteq> []"
  by (auto simp: is_hex6_def)

lemma collect_colors_resolved:
  "(\<forall>r \<in> set rs. resolved str_upper r) \<Longrightarrow>
   collect_colors str_upper rs acc = Inr (Some (acc @ map (\<lambda>r. rgb_of (the (get_color str_upper r))) rs))"
proof (induction rs arbitrary: acc)
  case Nil
  then show ?case by simp
next
  case (Cons r rs)
  from Cons.prems obtain c where c: "get_color str_upper r = Some c" "is_hex6 c"
    by (auto simp: resolved_def split: option.splits)
  from Cons.prems have "\<forall>r \<in> set rs. resolved str_upper r" by simp
  from Cons.IH[OF this] show ?case
    using c by (simp add: hex_to_rgb_hex6 is_hex6_nonempty)
qed

lemma hex_to_rgb_error: "hex_to_rgb c = Inl e \<Longrightarrow> e = ValueError"
  by (auto simp: hex_to_rgb_def Let_def split: if_splits option.splits)

lemma collect_colors_missing:
  "(\<forall>x \<in> set pre. \<forall>c. get_color str_upper x = Some c \<longrightarrow> hex_to_rgb c \<noteq> Inl ValueError) \<Longrightarrow>
   get_color str_upper r = None \<Longrightarrow> collect_colors str_upper (pre @ r # post) acc = Inr None"
proof (induction pre arbitrary: acc)
  case Nil
  then show ?case by simp
next
  case (Cons x pre)
  show ?case
  proof (cases "get_color str_upper x")
    case None
    then show ?thesis by simp
  next
    case (Some c)
    with Cons.prems have ne: "hex_to_rgb c \<noteq> Inl ValueError" by simp
    from Cons.prems have "\<forall>x \<in> set pre. \<forall>c. get_color str_upper x = Some c \<longrightarrow> hex_to_rgb c \<noteq> Inl ValueError"
      by simp
    from Cons.IH[OF this Cons.prems(2)] ne Some show ?thesis
      by (cases "hex_to_rgb c") (auto split: option.splits dest: hex_to_rgb_error)
  qed
qed


lemma classify_intent_resolved:
  assumes "\<forall>r \<in> set (runs p). resolved str_upper r"
  shows "classify_intent str_upper p =
     Inr (case map (\<lambda>r. rgb_of (the (get_color str_upper r))) (runs p) of
            [] \<Rightarrow> None
          | base # rest \<Rightarrow>
              if list_ex (\<lambda>c. dist_sq base c > 100) rest then None
              else if dist_sq base GREEN_REF < 3600 then Some ''instruction''
              else if dist_sq base RED_REF < 3600 then Some ''example''
              else None)"
proof -
  have z: "\<And>b. \<not> dist_sq b b > 100" by (auto simp: dist_sq_def split: prod.splits)
  show ?thesis
    unfolding classify_intent_def collect_colors_resolved[OF assms]
    by (auto simp: color_distance_gt_10 color_distance_lt_60 z split: list.splits)
qed

lemma classify_intent_missing:
  assumes "runs p = pre @ r # post"
    and "\<forall>x \<in> set pre. \<forall>c. get_color str_upper x = Some c \<longrightarrow> hex_to_rgb c \<noteq> Inl ValueError"
    and "get_color str_upper r = None"
  shows "classify_intent str_upper p = Inr None"
  unfolding classify_intent_def assms(1) collect_colors_missing[OF assms(2,3)]
  by simp

lemma ref_colors:
  "hex_to_rgb ''00B050'' = Inr (Some GREEN_REF) \<and> hex_to_rgb ''C9211E'' = Inr (Some RED_REF)"
  by (simp add: hex_to_rgb_def slice_def int16_def is_hex_digit_def hex_value_def GREEN_REF_def
        RED_REF_def)

text \<open>
  Claim C7, amended: for a paragraph whose runs each resolve to a valid colour of six hex
  digits, \<open>classify_intent\<close> returns nothing when the paragraph has no run or when the
  colour of some run is at Euclidean distance more than 10 from the colour of the first
  run (the representative); otherwise \<open>instruction\<close> when the representative is at
  distance less than 60 from \<open>00B050\<close>, else \<open>example\<close> when it is at distance less than
  60 from \<open>C9211E\<close>, else nothing. When a run resolves no colour and the colour of no
  earlier run makes the hex conversion raise, the result is nothing. This holds for
  every function \<open>str_upper\<close>.
\<close>

theorem classify_intent_against_first:
  "hex_to_rgb ''00B050'' = Inr (Some GREEN_REF) \<and> hex_to_rgb ''C9211E'' = Inr (Some RED_REF)
   \<and> ((\<forall>r \<in> set (runs p). resolved str_upper r) \<longrightarrow>
        classify_intent str_upper p =
          Inr (case map (\<lambda>r. rgb_of (the (get_color str_upper r))) (runs p) of
                 [] \<Rightarrow> None
               | base # rest \<Rightarrow>
                   if (\<exists>c \<in> set rest. color_distance base c > 10) then None
                   else if color_distance base GREEN_REF < 60 then Some ''instruction''
                   else if color_distance base RED_REF < 60 then Some ''example''
                   else None))
   \<and> (runs p = pre @ r # post
        \<and> (\<forall>x \<in> set pre. \<forall>c. get_color str_upper x = Some c \<longrightarrow> hex_to_rgb c \<noteq> Inl ValueError)
        \<and> get_color str_upper r = None \<longrightarrow>
        classify_intent str_upper p = Inr None)"
proof (intro conjI impI)
  show "hex_to_rgb ''00B050'' = Inr (Some GREEN_REF)" using ref_colors by simp
  show "hex_to_rgb ''C9211E'' = Inr (Some RED_REF)" using ref_colors by simp
next
  assume a: "\<forall>r \<in> set (runs p). resolved str_upper r"
  have t: "\<And>a b. (color_distance a b < 60) = (dist_sq a b < 3600)"
    using color_distance_lt_60 by (simp add: COLOR_THRESHOLD_def)
  show "classify_intent str_upper p =
          Inr (case map (\<lambda>r. rgb_of (the (get_color str_upper r))) (runs p) of
                 [] \<Rightarrow> None
               | base # rest \<Rightarrow>
                   if (\<exists>c \<in> set rest. color_distance base c > 10) then None
                   else if color_distance base GREEN_REF < 60 then Some ''instruction''
                   else if color_distance base RED_REF < 60 then Some ''example''
                   else None)"
    unfolding classify_intent_resolved[OF a] color_distance_gt_10 t list_ex_iff
    by (rule refl)
next
  assume "runs p = pre @ r # post
        \<and> (\<forall>x \<in> set pre. \<forall>c. get_color str_upper x = Some c \<longrightarrow> hex_to_rgb c \<noteq> Inl ValueError)
        \<and> get_color str_upper r = None"
  then show "classify_intent str_upper p = Inr None"
    using classify_intent_missing by blast
qed

lemma get_color_eval:
  "get_color (\<lambda>s. s) (mk_run ''x'' (Some ((empty_attributes :: unit RunAttributes)\<lparr>font_color := Some ''00B050''\<rparr>))) = Some ''00B050''"
  "get_color (\<lambda>s. s) (mk_run ''x'' (Some ((empty_attributes :: unit RunAttributes)\<lparr>font_color := Some ''00A650''\<rparr>))) = Some ''00A650''"
  "get_color (\<lambda>s. s) (mk_run ''x'' (Some ((empty_attributes :: unit RunAttributes)\<lparr>font_color := Some ''00BA50''\<rparr>))) = Some ''00BA50''"
  "get_color (\<lambda>s. s) (mk_run ''x'' (Some (empty_attributes :: unit RunAttributes))) = None"
  by (simp_all add: get_color_def mk_run_def empty_attributes_def str_truthy_def list_truthy_def
        Let_def)

text \<open>
  Claim C7, as stated, compares every pair of colours. The code compares each colour
  with the first one only: three runs coloured \<open>00B050\<close>, \<open>00A650\<close> and \<open>00BA50\<close> are
  classified as an instruction, although the last two colours are at distance 20. These
  colours are their own upper case, so \<open>str_upper\<close> is the identity here.
\<close>

theorem classify_intent_pairwise_counterexample:
  "classify_intent (\<lambda>s. s) (mk_paragraph None
      [mk_run ''x'' (Some ((empty_attributes :: unit RunAttributes)\<lparr>font_color := Some ''00B050''\<rparr>)),
       mk_run ''x'' (Some (empty_attributes\<lparr>font_color := Some ''00A650''\<rparr>)),
       mk_run ''x'' (Some (empty_attributes\<lparr>font_color := Some ''00BA50''\<rparr>))])
     = Inr (Some ''instruction'')
   \<and> get_color (\<lambda>s. s) (mk_run ''x'' (Some ((empty_attributes :: unit RunAttributes)\<lparr>font_color := Some ''00A650''\<rparr>)))
       = Some ''00A650''
   \<and> get_color (\<lambda>s. s) (mk_run ''x'' (Some ((empty_attributes :: unit RunAttributes)\<lparr>font_color := Some ''00BA50''\<rparr>)))
       = Some ''00BA50''
   \<and> hex_to_rgb ''00A650'' = Inr (Some (0, 166, 80))
   \<and> hex_to_rgb ''00BA50'' = Inr (Some (0, 186, 80))
   \<and> color_distance (0, 166, 80) (0, 186, 80) > 10"
proof -
  have h: "hex_to_rgb ''00B050'' = Inr (Some (0, 176, 80))"
       "hex_to_rgb ''00A650'' = Inr (Some (0, 166, 80))"
       "hex_to_rgb ''00BA50'' = Inr (Some (0, 186, 80))"
    by (simp_all add: hex_to_rgb_def slice_def int16_def is_hex_digit_def hex_value_def)
  have t: "\<And>a b. (color_distance a b < COLOR_THRESHOLD) = (dist_sq a b < 3600)"
    using color_distance_lt_60 by simp
  show ?thesis
    by (simp add: classify_intent_def mk_paragraph_def get_color_eval h color_distance_gt_10 t
          dist_sq_def GREEN_REF_def RED_REF_def)
qed


theorem classify_intent_against_first_witness:
  "classify_intent (\<lambda>s. s) (mk_paragraph None
      [mk_run ''x'' (Some ((empty_attributes :: unit RunAttributes)\<lparr>font_color := Some ''00B050''\<rparr>)),
       mk_run ''x'' (Some (empty_attributes\<lparr>font_color := Some ''00A650''\<rparr>))])
     = Inr (Some ''instruction'')
   \<and> classify_intent (\<lambda>s. s) (mk_paragraph None
      [mk_run ''x'' (Some ((empty_attributes :: unit RunAttributes)\<lparr>font_color := Some ''00B050''\<rparr>)),
       mk_run ''x'' (Some empty_attributes),
       mk_run ''x'' (Some (empty_attributes\<lparr>font_color := Some ''00A650''\<rparr>))])
     = Inr None"
proof -
  let ?g = "mk_run ''x'' (Some ((empty_attributes :: unit RunAttributes)\<lparr>font_color := Some ''00B050''\<rparr>))"
  let ?a = "mk_run ''x'' (Some ((empty_attributes :: unit RunAttributes)\<lparr>font_color := Some ''00A650''\<rparr>))"
  let ?n = "mk_run ''x'' (Some (empty_attributes :: unit RunAttributes))"
  have t: "\<And>a b. (color_distance a b < 60) = (dist_sq a b < 3600)"
    using color_distance_lt_60 by (simp add: COLOR_THRESHOLD_def)
  have r: "rgb_of ''00B050'' = (0, 176, 80)" "rgb_of ''00A650'' = (0, 166, 80)"
    by (simp_all add: rgb_of_def hex_value_def)
  have h: "hex_to_rgb ''00B050'' = Inr (Some (0, 176, 80))"
    by (simp add: hex_to_rgb_def slice_def int16_def is_hex_digit_def hex_value_def)
  have 1: "classify_intent (\<lambda>s. s) (mk_paragraph None [?g, ?a]) = Inr (Some ''instruction'')"
    using classify_intent_against_first
      [where p = "mk_paragraph None [?g, ?a]" and str_upper = "\<lambda>s. s"]
    by (simp add: mk_paragraph_def resolved_def get_color_eval is_hex6_def is_hex_digit_def r
          color_distance_gt_10 t dist_sq_def GREEN_REF_def)
  have 2: "classify_intent (\<lambda>s. s) (mk_paragraph None [?g, ?n, ?a]) = Inr None"
    using classify_intent_against_first
      [where p = "mk_paragraph None [?g, ?n, ?a]" and str_upper = "\<lambda>s. s"
         and pre = "[?g]" and r = ?n and post = "[?a]"]
    by (simp add: mk_paragraph_def get_color_eval h)
  show ?thesis using 1 2 by simp
qed

section \<open>Properties of the deserialization of a layout\<close>

lemma elements_from_dict_shape:
  "elements_from_dict type_of pfd tfd els = Inr xs \<Longrightarrow>
   length xs = length els \<and> map (\<lambda>x. x = None) xs = map (\<lambda>d. \<not> recognized type_of d) els"
proof (induction els arbitrary: xs)
  case Nil
  then show ?case by simp
next
  case (Cons d ds)
  from Cons.prems obtain y ys where
    y: "element_from_dict type_of pfd tfd d = Inr y"
    and ys: "elements_from_dict type_of pfd tfd ds = Inr ys"
    and xs: "xs = y # ys"
    by (auto split: sum.splits)
  have "(y = None) = (\<not> recognized type_of d)"
    using y by (auto simp: element_from_dict_def recognized_def split: if_splits sum.splits)
  with Cons.IH[OF ys] xs show ?case by simp
qed

text \<open>
  What \<open>layout_from_dict\<close> does: when it returns a layout, its list of elements has one
  entry for each element record of the input, in order, and the entry is \<^verbatim>\<open>None\<close>
  exactly for the records whose type is neither \<open>Paragraph\<close> nor \<open>Table\<close>.
\<close>

lemma layout_from_dict_keeps_slot:
  "layout_from_dict header_from_dict footer_from_dict type_of pfd tfd data = Inr layout \<Longrightarrow>
   length (elements layout) = length (case d_elements data of None \<Rightarrow> [] | Some els \<Rightarrow> els)
   \<and> map (\<lambda>x. x = None) (elements layout)
       = map (\<lambda>d. \<not> recognized type_of d) (case d_elements data of None \<Rightarrow> [] | Some els \<Rightarrow> els)"
proof -
  assume a: "layout_from_dict header_from_dict footer_from_dict type_of pfd tfd data = Inr layout"
  then obtain elems where
    e: "elements_from_dict type_of pfd tfd (case d_elements data of None \<Rightarrow> [] | Some els \<Rightarrow> els) = Inr elems"
    and l: "elements layout = elems"
    by (auto simp: layout_from_dict_def split: sum.splits option.splits)
  from elements_from_dict_shape[OF e] l show ?thesis by simp
qed

text \<open>
  Claim C5 on two element records, of the types \<open>Paragraph\<close> and \<open>Image\<close>: the record of
  the unknown type is not dropped. \<open>element_from_dict\<close> has no branch for it and returns
  \<^verbatim>\<open>None\<close>, which the list comprehension stores: the list of elements has two entries
  for one recognized record, and the second is \<^verbatim>\<open>None\<close>, which is no element. The code
  that walks the elements does not expect it: \<^verbatim>\<open>_apply_replacement\<close>, here
  \<open>replace_in_layouts\<close>, raises \<^verbatim>\<open>AttributeError\<close> on this layout.
\<close>

theorem layout_from_dict_unknown_type:
  "layout_from_dict (\<lambda>d. Inl ValueError) (\<lambda>d. Inl ValueError) Some
      (\<lambda>d. Inr (mk_paragraph None ([] :: unit RunModel list))) (\<lambda>d. Inr (mk_table []))
      \<lparr>d_orientation = Some ''PORTRAIT'', d_header = None, d_footer = None,
       d_elements = Some [''Paragraph'', ''Image''], d_type = None, d_id = None\<rparr>
     = Inr \<lparr>orientation = ''PORTRAIT'', header = None, footer = None,
            elements = [Some (Paragraph (mk_paragraph None [])), None],
            layout_type = ''Layout'', layout_id = None\<rparr>
   \<and> length (filter (recognized Some) [''Paragraph'', ''Image'']) = 1
   \<and> replace_in_layouts
        [\<lparr>orientation = ''PORTRAIT'', header = None, footer = None,
          elements = [Some (Paragraph (mk_paragraph None ([] :: unit RunModel list))), None],
          layout_type = ''Layout'', layout_id = None\<rparr>]
        \<lparr>old_element_id = Some ''doc::0:layout::0:para::1'', new_elements = []\<rparr>
     = Inl AttributeError"
  by (simp add: layout_from_dict_def element_from_dict_def recognized_def elem_id_def
        mk_paragraph_def)

section \<open>Properties of the hierarchy builder\<close>

lemma hier_elements_append:
  "hier_elements gcm str_upper (xs @ ys) st =
     (case hier_elements gcm str_upper xs st of
        Inl e \<Rightarrow> Inl e
      | Inr (xs1, st1) \<Rightarrow>
          (case hier_elements gcm str_upper ys st1 of
             Inl e \<Rightarrow> Inl e
           | Inr (ys1, st2) \<Rightarrow> Inr (xs1 @ ys1, st2)))"
  by (induction xs arbitrary: st) (auto split: sum.splits)

lemma hier_layouts_flat:
  "hier_elements gcm str_upper (concat (map elements ls)) st = Inr (es, st1) \<Longrightarrow>
   \<exists>ls1. hier_layouts gcm str_upper ls st = Inr (ls1, st1) \<and> concat (map elements ls1) = es"
proof (induction ls arbitrary: st es)
  case Nil
  then show ?case by simp
next
  case (Cons l ls)
  from Cons.prems obtain xs sx ys where
    x: "hier_elements gcm str_upper (elements l) st = Inr (xs, sx)"
    and y: "hier_elements gcm str_upper (concat (map elements ls)) sx = Inr (ys, st1)"
    and e: "es = xs @ ys"
    by (auto simp: hier_elements_append split: sum.splits)
  from Cons.IH[OF y] obtain ls1 where
    "hier_layouts gcm str_upper ls sx = Inr (ls1, st1)" "concat (map elements ls1) = ys" by blast
  with x e show ?case by simp
qed

lemma hier_paragraph_heading:
  assumes "style p = Some s" and "classify_style gcm s = (Some ''heading'', Some lv)" and "lv \<noteq> 0"
  shows "hier_paragraph gcm str_upper p st =
     Inr (p\<lparr>is_heading := Some True, heading_level := Some lv,
            parent_ref_id := find_parent (heading_stack st) (rev [1..lv - 1])\<rparr>,
          \<lparr>heading_stack = (\<lambda>l. if l > lv then None else ((heading_stack st)(lv \<mapsto> para_id p)) l),
           last_heading_id = para_id p, last_caption_id = None\<rparr>)"
  using assms by (simp add: hier_paragraph_def Let_def)

lemma five_headings:
  assumes "style p1 = Some s1" "classify_style gcm s1 = (Some ''heading'', Some 1)"
    and "style p2 = Some s2" "classify_style gcm s2 = (Some ''heading'', Some 2)"
    and "style p3 = Some s3" "classify_style gcm s3 = (Some ''heading'', Some 3)"
    and "style p4 = Some s4" "classify_style gcm s4 = (Some ''heading'', Some 2)"
    and "style p5 = Some s5" "classify_style gcm s5 = (Some ''heading'', Some 1)"
  shows "\<exists>es st. hier_elements gcm str_upper
           [Some (Paragraph p1), Some (Paragraph p2), Some (Paragraph p3),
            Some (Paragraph p4), Some (Paragraph p5)]
           \<lparr>heading_stack = Map.empty, last_heading_id = None, last_caption_id = None\<rparr>
         = Inr (es, st)
       \<and> map parent_of es = [None, para_id p1, para_id p2, para_id p1, None]"
proof -
  have h1: "\<And>st. hier_paragraph gcm str_upper p1 st = Inr (p1\<lparr>is_heading := Some True, heading_level := Some 1,
            parent_ref_id := find_parent (heading_stack st) (rev [1..1 - 1])\<rparr>,
          \<lparr>heading_stack = (\<lambda>l. if l > 1 then None else ((heading_stack st)(1 \<mapsto> para_id p1)) l),
           last_heading_id = para_id p1, last_caption_id = None\<rparr>)"
    using hier_paragraph_heading[OF assms(1,2)] by simp
  have h2: "\<And>st. hier_paragraph gcm str_upper p2 st = Inr (p2\<lparr>is_heading := Some True, heading_level := Some 2,
            parent_ref_id := find_parent (heading_stack st) (rev [1..2 - 1])\<rparr>,
          \<lparr>heading_stack = (\<lambda>l. if l > 2 then None else ((heading_stack st)(2 \<mapsto> para_id p2)) l),
           last_heading_id = para_id p2, last_caption_id = None\<rparr>)"
    using hier_paragraph_heading[OF assms(3,4)] by simp
  have h3: "\<And>st. hier_paragraph gcm str_upper p3 st = Inr (p3\<lparr>is_heading := Some True, heading_level := Some 3,
            parent_ref_id := find_parent (heading_stack st) (rev [1..3 - 1])\<rparr>,
          \<lparr>heading_stack = (\<lambda>l. if l > 3 then None else ((heading_stack st)(3 \<mapsto> para_id p3)) l),
           last_heading_id = para_id p3, last_caption_id = None\<rparr>)"
    using hier_paragraph_heading[OF assms(5,6)] by simp
  have h4: "\<And>st. hier_paragraph gcm str_upper p4 st = Inr (p4\<lparr>is_heading := Some True, heading_level := Some 2,
            parent_ref_id := find_parent (heading_stack st) (rev [1..2 - 1])\<rparr>,
          \<lparr>heading_stack = (\<lambda>l. if l > 2 then None else ((heading_stack st)(2 \<mapsto> para_id p4)) l),
           last_heading_id = para_id p4, last_caption_id = None\<rparr>)"
    using hier_paragraph_heading[OF assms(7,8)] by simp
  have h5: "\<And>st. hier_paragraph gcm str_upper p5 st = Inr (p5\<lparr>is_heading := Some True, heading_level := Some 1,
            parent_ref_id := find_parent (heading_stack st) (rev [1..1 - 1])\<rparr>,
          \<lparr>heading_stack = (\<lambda>l. if l > 1 then None else ((heading_stack st)(1 \<mapsto> para_id p5)) l),
           last_heading_id = para_id p5, last_caption_id = None\<rparr>)"
    using hier_paragraph_heading[OF assms(9,10)] by simp
  have u0: "[1..(0::int)] = []" by simp
  have u1: "[1..(1::int)] = [1]" by (simp add: upto.simps)
  have u2: "[1..(2::int)] = [1, 2]" by (simp add: upto.simps)
  show ?thesis
    by (simp add: hier_element_def h1 h2 h3 h4 h5 u0 u1 u2 parent_of_def)
qed

lemma find_parent_skip:
  "(\<forall>k \<in> set pre. hs k = None) \<Longrightarrow> find_parent hs (pre @ ls) = find_parent hs ls"
  by (induction pre) simp_all

lemma find_parent_nearest:
  assumes "1 \<le> l" and "l < lv" and "hs l = Some x" and "\<forall>k. l < k \<and> k < lv \<longrightarrow> hs k = None"
  shows "find_parent hs (rev [1..lv - 1]) = x"
proof -
  have "[1..lv - 1] = [1..l - 1] @ l # [l + 1..lv - 1]"
    using assms(1,2) by (intro upto_split3) auto
  then have "rev [1..lv - 1] = rev [l + 1..lv - 1] @ l # rev [1..l - 1]" by simp
  moreover have "\<forall>k \<in> set (rev [l + 1..lv - 1]). hs k = None" using assms(4) by auto
  ultimately show ?thesis using assms(3) by (simp add: find_parent_skip)
qed

lemma find_parent_none:
  assumes "\<forall>k. 1 \<le> k \<and> k < lv \<longrightarrow> hs k = None"
  shows "find_parent hs (rev [1..lv - 1]) = None"
proof -
  have "\<forall>k \<in> set (rev [1..lv - 1]). hs k = None" using assms by auto
  then have "find_parent hs (rev [1..lv - 1] @ []) = find_parent hs []" by (rule find_parent_skip)
  then show ?thesis by simp
qed

text \<open>
  Claim C3: for a document whose flattened elements are five paragraphs whose styles
  classify as headings of the levels 1, 2, 3, 2, 1, \<open>build_hierarchy\<close> returns and the
  parents are: none, the id of the first, the id of the second, the id of the first,
  none. In general a heading of level \<open>lv\<close> takes as parent what \<open>find_parent\<close> finds, its
  id is put on the stack at \<open>lv\<close>, the levels above \<open>lv\<close> are cleared and those below are
  kept; \<open>find_parent\<close> returns the entry of the nearest populated level below \<open>lv\<close>, and
  nothing when no level from 1 to \<open>lv - 1\<close> is populated. This holds for every fuzzy
  match \<open>gcm\<close> and every function \<open>str_upper\<close>.
\<close>

theorem build_hierarchy_heading_stack:
  "(iter_elements doc = [Some (Paragraph p1), Some (Paragraph p2), Some (Paragraph p3),
                         Some (Paragraph p4), Some (Paragraph p5)]
    \<and> style p1 = Some s1 \<and> classify_style gcm s1 = (Some ''heading'', Some 1)
    \<and> style p2 = Some s2 \<and> classify_style gcm s2 = (Some ''heading'', Some 2)
    \<and> style p3 = Some s3 \<and> classify_style gcm s3 = (Some ''heading'', Some 3)
    \<and> style p4 = Some s4 \<and> classify_style gcm s4 = (Some ''heading'', Some 2)
    \<and> style p5 = Some s5 \<and> classify_style gcm s5 = (Some ''heading'', Some 1)
    \<longrightarrow> (\<exists>doc1. build_hierarchy gcm str_upper doc = Inr doc1
          \<and> map parent_of (iter_elements doc1) = [None, para_id p1, para_id p2, para_id p1, None]))
   \<and> (style p = Some s \<and> classify_style gcm s = (Some ''heading'', Some lv) \<and> lv \<noteq> 0
       \<longrightarrow> (\<exists>q st1. hier_paragraph gcm str_upper p st = Inr (q, st1)
             \<and> parent_ref_id q = find_parent (heading_stack st) (rev [1..lv - 1])
             \<and> heading_stack st1 lv = Some (para_id p)
             \<and> (\<forall>k. k > lv \<longrightarrow> heading_stack st1 k = None)
             \<and> (\<forall>k. k < lv \<longrightarrow> heading_stack st1 k = heading_stack st k)
             \<and> last_heading_id st1 = para_id p))
   \<and> (1 \<le> l \<and> l < lv \<and> hs l = Some x \<and> (\<forall>k. l < k \<and> k < lv \<longrightarrow> hs k = None)
       \<longrightarrow> find_parent hs (rev [1..lv - 1]) = x)
   \<and> ((\<forall>k. 1 \<le> k \<and> k < lv \<longrightarrow> hs k = None) \<longrightarrow> find_parent hs (rev [1..lv - 1]) = None)"
proof (intro conjI impI)
  assume a: "iter_elements doc = [Some (Paragraph p1), Some (Paragraph p2), Some (Paragraph p3),
                         Some (Paragraph p4), Some (Paragraph p5)]
    \<and> style p1 = Some s1 \<and> classify_style gcm s1 = (Some ''heading'', Some 1)
    \<and> style p2 = Some s2 \<and> classify_style gcm s2 = (Some ''heading'', Some 2)
    \<and> style p3 = Some s3 \<and> classify_style gcm s3 = (Some ''heading'', Some 3)
    \<and> style p4 = Some s4 \<and> classify_style gcm s4 = (Some ''heading'', Some 2)
    \<and> style p5 = Some s5 \<and> classify_style gcm s5 = (Some ''heading'', Some 1)"
  then have ie: "concat (map elements (layouts doc)) =
      [Some (Paragraph p1), Some (Paragraph p2), Some (Paragraph p3),
       Some (Paragraph p4), Some (Paragraph p5)]"
    by (simp add: iter_elements_def)
  have "\<exists>es st. hier_elements gcm str_upper
          [Some (Paragraph p1), Some (Paragraph p2), Some (Paragraph p3),
           Some (Paragraph p4), Some (Paragraph p5)]
          \<lparr>heading_stack = Map.empty, last_heading_id = None, last_caption_id = None\<rparr> = Inr (es, st)
        \<and> map parent_of es = [None, para_id p1, para_id p2, para_id p1, None]"
    by (rule five_headings[of p1 s1 gcm p2 s2 p3 s3 p4 s4 p5 s5 str_upper]) (use a in simp_all)
  then obtain es st where
    h0: "hier_elements gcm str_upper
          [Some (Paragraph p1), Some (Paragraph p2), Some (Paragraph p3),
           Some (Paragraph p4), Some (Paragraph p5)]
          \<lparr>heading_stack = Map.empty, last_heading_id = None, last_caption_id = None\<rparr> = Inr (es, st)"
    and p: "map parent_of es = [None, para_id p1, para_id p2, para_id p1, None]"
    by (elim exE conjE)
  from h0 have
    h: "hier_elements gcm str_upper (concat (map elements (layouts doc)))
          \<lparr>heading_stack = Map.empty, last_heading_id = None, last_caption_id = None\<rparr> = Inr (es, st)"
    by (simp only: ie)
  from hier_layouts_flat[OF h] obtain ls1 where
    "hier_layouts gcm str_upper (layouts doc)
       \<lparr>heading_stack = Map.empty, last_heading_id = None, last_caption_id = None\<rparr> = Inr (ls1, st)"
    "concat (map elements ls1) = es" by blast
  then show "\<exists>doc1. build_hierarchy gcm str_upper doc = Inr doc1
          \<and> map parent_of (iter_elements doc1) = [None, para_id p1, para_id p2, para_id p1, None]"
    using p by (simp add: build_hierarchy_def iter_elements_def)
next
  assume "style p = Some s \<and> classify_style gcm s = (Some ''heading'', Some lv) \<and> lv \<noteq> 0"
  then show "\<exists>q st1. hier_paragraph gcm str_upper p st = Inr (q, st1)
             \<and> parent_ref_id q = find_parent (heading_stack st) (rev [1..lv - 1])
             \<and> heading_stack st1 lv = Some (para_id p)
             \<and> (\<forall>k. k > lv \<longrightarrow> heading_stack st1 k = None)
             \<and> (\<forall>k. k < lv \<longrightarrow> heading_stack st1 k = heading_stack st k)
             \<and> last_heading_id st1 = para_id p"
    by (simp add: hier_paragraph_heading)
next
  assume "1 \<le> l \<and> l < lv \<and> hs l = Some x \<and> (\<forall>k. l < k \<and> k < lv \<longrightarrow> hs k = None)"
  then show "find_parent hs (rev [1..lv - 1]) = x"
    using find_parent_nearest by blast
next
  assume "\<forall>k. 1 \<le> k \<and> k < lv \<longrightarrow> hs k = None"
  then show "find_parent hs (rev [1..lv - 1]) = None"
    by (rule find_parent_none)
qed

theorem build_hierarchy_heading_stack_witness:
  "classify_style (\<lambda>name pats. filter (\<lambda>pat. sublist pat name) pats) \<lparr>style_name = ''Heading 1''\<rparr>
     = (Some ''heading'', Some 1)
   \<and> classify_style (\<lambda>name pats. filter (\<lambda>pat. sublist pat name) pats) \<lparr>style_name = ''Heading 2''\<rparr>
     = (Some ''heading'', Some 2)
   \<and> classify_style (\<lambda>name pats. filter (\<lambda>pat. sublist pat name) pats) \<lparr>style_name = ''Heading 3''\<rparr>
     = (Some ''heading'', Some 3)
   \<and> (\<exists>doc1. build_hierarchy (\<lambda>name pats. filter (\<lambda>pat. sublist pat name) pats) (\<lambda>s. s)
          \<lparr>layouts =
             [\<lparr>orientation = ''PORTRAIT'', header = None, footer = None,
               elements =
                 [Some (Paragraph ((mk_paragraph (Some \<lparr>style_name = ''Heading 1''\<rparr>)
                                     ([] :: unit RunModel list))\<lparr>para_id := Some ''a''\<rparr>)),
                  Some (Paragraph ((mk_paragraph (Some \<lparr>style_name = ''Heading 2''\<rparr>) [])
                                     \<lparr>para_id := Some ''b''\<rparr>))],
               layout_type = ''Layout'', layout_id = None\<rparr>,
              \<lparr>orientation = ''PORTRAIT'', header = None, footer = None,
               elements =
                 [Some (Paragraph ((mk_paragraph (Some \<lparr>style_name = ''Heading 3''\<rparr>) [])
                                     \<lparr>para_id := Some ''c''\<rparr>)),
                  Some (Paragraph ((mk_paragraph (Some \<lparr>style_name = ''Heading 2''\<rparr>) [])
                                     \<lparr>para_id := Some ''d''\<rparr>)),
                  Some (Paragraph ((mk_paragraph (Some \<lparr>style_name = ''Heading 1''\<rparr>) [])
                                     \<lparr>para_id := Some ''e''\<rparr>))],
               layout_type = ''Layout'', layout_id = None\<rparr>],
           doc_type = ''Document'', doc_id = None, filename = None, element_index = [],
           paragraph_index = [], paragraph_order = []\<rparr> = Inr doc1
        \<and> map parent_of (iter_elements doc1) = [None, Some ''a'', Some ''b'', Some ''a'', None])
   \<and> (\<exists>q st1. hier_paragraph (\<lambda>name pats. filter (\<lambda>pat. sublist pat name) pats) (\<lambda>s. s)
          ((mk_paragraph (Some \<lparr>style_name = ''Heading 3''\<rparr>) ([] :: unit RunModel list))
             \<lparr>para_id := Some ''c''\<rparr>)
          \<lparr>heading_stack = [1 \<mapsto> Some ''a'', 2 \<mapsto> Some ''b''], last_heading_id = Some ''b'',
            last_caption_id = None\<rparr> = Inr (q, st1)
        \<and> parent_ref_id q = Some ''b'' \<and> heading_stack st1 3 = Some (Some ''c'')
        \<and> last_heading_id st1 = Some ''c'')
   \<and> find_parent [1 \<mapsto> Some ''a'', 2 \<mapsto> Some ''b''] (rev [1..3 - 1]) = Some ''b''
   \<and> find_parent Map.empty (rev [1..1 - 1]) = None"
proof -
  let ?gcm = "\<lambda>name pats. filter (\<lambda>pat. sublist pat name) pats :: string list"
  let ?p1 = "(mk_paragraph (Some \<lparr>style_name = ''Heading 1''\<rparr>) ([] :: unit RunModel list))\<lparr>para_id := Some ''a''\<rparr>"
  let ?p2 = "(mk_paragraph (Some \<lparr>style_name = ''Heading 2''\<rparr>) ([] :: unit RunModel list))\<lparr>para_id := Some ''b''\<rparr>"
  let ?p3 = "(mk_paragraph (Some \<lparr>style_name = ''Heading 3''\<rparr>) ([] :: unit RunModel list))\<lparr>para_id := Some ''c''\<rparr>"
  let ?p4 = "(mk_paragraph (Some \<lparr>style_name = ''Heading 2''\<rparr>) ([] :: unit RunModel list))\<lparr>para_id := Some ''d''\<rparr>"
  let ?p5 = "(mk_paragraph (Some \<lparr>style_name = ''Heading 1''\<rparr>) ([] :: unit RunModel list))\<lparr>para_id := Some ''e''\<rparr>"
  let ?doc = "\<lparr>layouts =
             [\<lparr>orientation = ''PORTRAIT'', header = None, footer = None,
               elements = [Some (Paragraph ?p1), Some (Paragraph ?p2)],
               layout_type = ''Layout'', layout_id = None\<rparr>,
              \<lparr>orientation = ''PORTRAIT'', header = None, footer = None,
               elements = [Some (Paragraph ?p3), Some (Paragraph ?p4), Some (Paragraph ?p5)],
               layout_type = ''Layout'', layout_id = None\<rparr>],
           doc_type = ''Document'', doc_id = None, filename = None, element_index = [],
           paragraph_index = [], paragraph_order = []\<rparr>"
  have c1: "classify_style ?gcm \<lparr>style_name = ''Heading 1''\<rparr> = (Some ''heading'', Some 1)"
    by code_simp
  have c2: "classify_style ?gcm \<lparr>style_name = ''Heading 2''\<rparr> = (Some ''heading'', Some 2)"
    by code_simp
  have c3: "classify_style ?gcm \<lparr>style_name = ''Heading 3''\<rparr> = (Some ''heading'', Some 3)"
    by code_simp
  have u2: "[1..(2::int)] = [1, 2]" by (simp add: upto.simps)
  have a: "\<exists>doc1. build_hierarchy ?gcm (\<lambda>s. s) ?doc = Inr doc1
        \<and> map parent_of (iter_elements doc1) = [None, Some ''a'', Some ''b'', Some ''a'', None]"
    using build_hierarchy_heading_stack
      [of ?doc ?p1 ?p2 ?p3 ?p4 ?p5 "\<lparr>style_name = ''Heading 1''\<rparr>" ?gcm
          "\<lparr>style_name = ''Heading 2''\<rparr>" "\<lparr>style_name = ''Heading 3''\<rparr>"
          "\<lparr>style_name = ''Heading 2''\<rparr>" "\<lparr>style_name = ''Heading 1''\<rparr>"
          "\<lambda>s. s"
          ?p3 "\<lparr>style_name = ''Heading 3''\<rparr>" 3
          "\<lparr>heading_stack = [1 \<mapsto> Some ''a'', 2 \<mapsto> Some ''b''], last_heading_id = Some ''b'',
            last_caption_id = None\<rparr>"
          2 "[1 \<mapsto> Some ''a'', 2 \<mapsto> Some ''b'']" "Some ''b''"]
      c1 c2 c3
    by (simp add: iter_elements_def mk_paragraph_def)
  have b: "find_parent [1 \<mapsto> Some ''a'', 2 \<mapsto> Some ''b''] (rev [1..3 - 1]) = Some ''b''"
    using build_hierarchy_heading_stack
      [of ?doc ?p1 ?p2 ?p3 ?p4 ?p5 "\<lparr>style_name = ''Heading 1''\<rparr>" ?gcm
          "\<lparr>style_name = ''Heading 2''\<rparr>" "\<lparr>style_name = ''Heading 3''\<rparr>"
          "\<lparr>style_name = ''Heading 2''\<rparr>" "\<lparr>style_name = ''Heading 1''\<rparr>"
          "\<lambda>s. s"
          ?p3 "\<lparr>style_name = ''Heading 3''\<rparr>" 3
          "\<lparr>heading_stack = [1 \<mapsto> Some ''a'', 2 \<mapsto> Some ''b''], last_heading_id = Some ''b'',
            last_caption_id = None\<rparr>"
          2 "[1 \<mapsto> Some ''a'', 2 \<mapsto> Some ''b'']" "Some ''b''"]
    by simp
  have c: "find_parent (Map.empty :: int \<rightharpoonup> string option) (rev [1..1 - 1]) = None"
    using build_hierarchy_heading_stack
      [of ?doc ?p1 ?p2 ?p3 ?p4 ?p5 "\<lparr>style_name = ''Heading 1''\<rparr>" ?gcm
          "\<lparr>style_name = ''Heading 2''\<rparr>" "\<lparr>style_name = ''Heading 3''\<rparr>"
          "\<lparr>style_name = ''Heading 2''\<rparr>" "\<lparr>style_name = ''Heading 1''\<rparr>"
          "\<lambda>s. s"
          ?p1 "\<lparr>style_name = ''Heading 1''\<rparr>" 1
          "\<lparr>heading_stack = Map.empty, last_heading_id = None, last_caption_id = None\<rparr>"
          1 "Map.empty" "None"]
    by simp
  have d: "\<exists>q st1. hier_paragraph ?gcm (\<lambda>s. s) ?p3
          \<lparr>heading_stack = [1 \<mapsto> Some ''a'', 2 \<mapsto> Some ''b''], last_heading_id = Some ''b'',
            last_caption_id = None\<rparr> = Inr (q, st1)
        \<and> parent_ref_id q = Some ''b'' \<and> heading_stack st1 3 = Some (Some ''c'')
        \<and> last_heading_id st1 = Some ''c''"
    using build_hierarchy_heading_stack
      [of ?doc ?p1 ?p2 ?p3 ?p4 ?p5 "\<lparr>style_name = ''Heading 1''\<rparr>" ?gcm
          "\<lparr>style_name = ''Heading 2''\<rparr>" "\<lparr>style_name = ''Heading 3''\<rparr>"
          "\<lparr>style_name = ''Heading 2''\<rparr>" "\<lparr>style_name = ''Heading 1''\<rparr>"
          "\<lambda>s. s"
          ?p3 "\<lparr>style_name = ''Heading 3''\<rparr>" 3
          "\<lparr>heading_stack = [1 \<mapsto> Some ''a'', 2 \<mapsto> Some ''b''], last_heading_id = Some ''b'',
            last_caption_id = None\<rparr>"
          2 "[1 \<mapsto> Some ''a'', 2 \<mapsto> Some ''b'']" "Some ''b''", THEN conjunct2, THEN conjunct1]
      c3 b
    by (auto simp: mk_paragraph_def)
  show ?thesis using c1 c2 c3 a b c d by simp
qed

section \<open>Properties of the placeholder mutation engine\<close>

lemma upd_layout_caches:
  "element_index (upd_layout l f doc) = element_index doc
   \<and> paragraph_index (upd_layout l f doc) = paragraph_index doc
   \<and> paragraph_order (upd_layout l f doc) = paragraph_order doc"
  by (simp add: upd_layout_def)

lemma store_caches:
  "element_index (store doc r x) = element_index doc
   \<and> paragraph_index (store doc r x) = paragraph_index doc
   \<and> paragraph_order (store doc r x) = paragraph_order doc"
  by (simp add: store_def upd_cell_def upd_layout_caches split: ref.splits obj.splits)

lemma build_element_index_caches:
  "paragraph_index (build_element_index doc) = paragraph_index doc
   \<and> paragraph_order (build_element_index doc) = paragraph_order doc"
  by (simp add: build_element_index_def)

lemma get_element_by_id_caches:
  "get_element_by_id doc eid = (doc1, r) \<Longrightarrow>
   paragraph_index doc1 = paragraph_index doc \<and> paragraph_order doc1 = paragraph_order doc"
  by (auto simp: get_element_by_id_def Let_def build_element_index_caches split: if_splits)

lemma apply_deleted_caches:
  "paragraph_index (apply_deleted doc r ph) = paragraph_index doc
   \<and> paragraph_order (apply_deleted doc r ph) = paragraph_order doc"
  by (simp add: apply_deleted_def store_caches split: obj.splits)

lemma apply_done_caches:
  "apply_done table_of feed float_parse doc ops r ph = Inr (doc1, ops1) \<Longrightarrow>
   paragraph_index doc1 = paragraph_index doc \<and> paragraph_order doc1 = paragraph_order doc"
  by (auto simp: apply_done_def store_caches split: obj.splits sum.splits option.splits)

lemma apply_one_caches:
  assumes "apply_one table_of feed float_parse ph (doc, ops) = Inr (doc1, ops1)"
  shows "paragraph_index doc1 = paragraph_index doc \<and> paragraph_order doc1 = paragraph_order doc"
proof -
  obtain d r where g: "get_element_by_id doc (element_id ph) = (d, r)"
    by (cases "get_element_by_id doc (element_id ph)") auto
  note gc = get_element_by_id_caches[OF g]
  show ?thesis
  proof (cases "flag (deleted ph)")
    case True
    with assms g gc show ?thesis
      by (cases r) (auto simp: apply_one_def apply_deleted_caches)
  next
    case False
    show ?thesis
    proof (cases "status ph = REPLACEMENT_DONE")
      case nd: False
      with False assms show ?thesis by (simp add: apply_one_def)
    next
      case dn: True
      show ?thesis
      proof (cases r)
        case None
        with False dn assms g gc show ?thesis by (simp add: apply_one_def)
      next
        case (Some x)
        with False dn assms g have "apply_done table_of feed float_parse d ops x ph = Inr (doc1, ops1)"
          by (simp add: apply_one_def)
        from apply_done_caches[OF this] gc show ?thesis by simp
      qed
    qed
  qed
qed

lemma apply_loop_caches:
  "apply_loop table_of feed float_parse phs (doc, ops) = Inr (doc1, ops1) \<Longrightarrow>
   paragraph_index doc1 = paragraph_index doc \<and> paragraph_order doc1 = paragraph_order doc"
proof (induction phs arbitrary: doc ops)
  case Nil
  then show ?case by simp
next
  case (Cons ph phs)
  from Cons.prems obtain d o1 where
    s: "apply_one table_of feed float_parse ph (doc, ops) = Inr (d, o1)"
    and l: "apply_loop table_of feed float_parse phs (d, o1) = Inr (doc1, ops1)"
    by (auto split: sum.splits)
  from Cons.IH[OF l] apply_one_caches[OF s] show ?case by simp
qed

lemma apply_replacements_caches:
  "apply_replacements ops doc = Inr doc1 \<Longrightarrow>
   paragraph_index doc1 = paragraph_index doc \<and> paragraph_order doc1 = paragraph_order doc"
proof (induction ops arbitrary: doc)
  case Nil
  then show ?case by simp
next
  case (Cons op ops)
  from Cons.prems obtain d where
    r: "apply_replacement op doc = Inr d" and rs: "apply_replacements ops d = Inr doc1"
    by (auto split: sum.splits)
  from r have "paragraph_index d = paragraph_index doc \<and> paragraph_order d = paragraph_order doc"
    by (auto simp: apply_replacement_def split: sum.splits)
  with Cons.IH[OF rs] show ?case by simp
qed

text \<open>
  What \<open>apply_placeholders\<close> does to the caches when it returns on a non-empty batch: the
  element index is emptied, the paragraph index and the paragraph order are what they
  were before the call.
\<close>

lemma apply_placeholders_caches:
  assumes "apply_placeholders table_of feed float_parse doc phs = Inr doc1" and "phs \<noteq> []"
  shows "element_index doc1 = []
       \<and> paragraph_index doc1 = paragraph_index doc
       \<and> paragraph_order doc1 = paragraph_order doc"
proof -
  from assms obtain d ops d2 where
    l: "apply_loop table_of feed float_parse phs (build_element_index doc, []) = Inr (d, ops)"
    and r: "apply_replacements ops d = Inr d2"
    and e: "doc1 = invalidate_index d2"
    by (auto simp: apply_placeholders_def split: sum.splits)
  from apply_loop_caches[OF l] apply_replacements_caches[OF r] e show ?thesis
    by (simp add: invalidate_index_def build_element_index_caches)
qed

text \<open>
  Claim C4 on a document with one paragraph whose paragraph index has been built: a
  placeholder with a replacement done and a table as future element replaces the
  paragraph by a table. When \<open>apply_placeholders\<close> returns, the element index is empty,
  but the paragraph index and the paragraph order still hold the id of the paragraph
  that is no longer in the document: only \<open>invalidate_index\<close> is called, not
  \<open>invalidate_paragraph_index\<close>.
\<close>

theorem apply_placeholders_stale_paragraph_index:
  "apply_placeholders (\<lambda>s. Inr (mk_table [])) (\<lambda>s. []) (\<lambda>s. None)
     (build_paragraph_index
        \<lparr>layouts =
           [\<lparr>orientation = ''PORTRAIT'', header = None, footer = None,
             elements =
               [Some (Paragraph ((mk_paragraph None [mk_run ''Sales table'' (Some (empty_attributes :: unit RunAttributes))])
                                   \<lparr>para_id := Some ''doc::0:layout::0:para::0''\<rparr>))],
             layout_type = ''Layout'', layout_id = Some ''doc::0:layout::0''\<rparr>],
         doc_type = ''Document'', doc_id = Some ''doc::0'', filename = None,
         element_index = [], paragraph_index = [], paragraph_order = []\<rparr>)
     [\<lparr>ph_id = ''doc::0:layout::0:para::0::ph::0'', ph_text = ''Sales table'',
       status = REPLACEMENT_DONE, replaced_text = Some ''a|b'', replaced_reference = None,
       replaced_comment = None, deleted = Some False, matches = [],
       element_id = Some ''doc::0:layout::0:para::0'', future_element = TABLE\<rparr>]
   = Inr \<lparr>layouts =
           [\<lparr>orientation = ''PORTRAIT'', header = None, footer = None,
             elements = [Some (Table (mk_table []))],
             layout_type = ''Layout'', layout_id = Some ''doc::0:layout::0''\<rparr>],
         doc_type = ''Document'', doc_id = Some ''doc::0'', filename = None,
         element_index = [],
         paragraph_index = [(Some ''doc::0:layout::0:para::0'', ElementRef 0 0)],
         paragraph_order = [Some ''doc::0:layout::0:para::0'']\<rparr>"
  by code_simp

end
